theory Spec2Isabelle
  imports Main
begin

section \<open>MiniClaw gateway: data model\<close>

text \<open>
  A shallow embedding of the protocol runtime of \<^verbatim>\<open>src/server.ts\<close> and of
  \<^verbatim>\<open>src/conversation-logger.ts\<close>: the idempotency cache, the session history, run
  creation and completion, the slash-command branch of run execution, the handlers of
  \<^verbatim>\<open>chat.send\<close>, \<^verbatim>\<open>chat.history\<close>, \<^verbatim>\<open>agent\<close> and \<^verbatim>\<open>agent.wait\<close>, the
  handshake, frame routing, and the authorization gate of the HTTP completions endpoint.
  The server is a record that every operation takes and returns.

  JavaScript strings are modelled as \<^typ>\<open>string\<close>; one \<^typ>\<open>char\<close> stands for one
  code unit of the source string, so the model covers code units below U+0100. Numbers
  are integers. Every read of \<^verbatim>\<open>Date.now()\<close> inside one synchronous handler is the
  parameter \<open>now\<close>. Optional properties are \<^typ>\<open>'a option\<close>, with \<open>None\<close> for
  an absent one.
\<close>

datatype role = User | Assistant

datatype content_part =
    TextPart string
  | ThinkingPart string
  | ToolCallPart string string string string string "bool option"

record history_entry =
  role :: role
  content :: "content_part list"
  timestamp :: int
  stopReason :: "string option"
  model :: "string option"
  provider :: "string option"

subsection \<open>Conversation logger\<close>

text \<open>
  One JSONL line: \<^verbatim>\<open>{ session: sessionKey, ...entry }\<close>. The line is kept structured
  (the fields that \<^verbatim>\<open>JSON.stringify\<close> serialises).
\<close>

record log_line =
  session :: string
  entry :: history_entry

text \<open>
  The logger's directory and the files below it, keyed by the file name component that
  \<^verbatim>\<open>append\<close> joins onto the directory. A file is the list of its lines.
\<close>

record conversation_logger =
  dir :: string
  files :: "string \<Rightarrow> log_line list"

definition isSafeChar :: "char \<Rightarrow> bool" where
  "isSafeChar c =
     (let n = (of_char c :: nat) in
        (97 \<le> n \<and> n \<le> 122) \<or> (65 \<le> n \<and> n \<le> 90) \<or> (48 \<le> n \<and> n \<le> 57)
        \<or> c = CHR ''_'' \<or> c = CHR ''-'')"

text \<open>\<^verbatim>\<open>key.replace(/[^a-zA-Z0-9_-]/g, "-").slice(0, 64)\<close>\<close>

definition sanitizeKey :: "string \<Rightarrow> string" where
  "sanitizeKey key = take 64 (map (\<lambda>c. if isSafeChar c then c else CHR ''-'') key)"

text \<open>
  \<^verbatim>\<open>ConversationLogger.append\<close>. The calendar conversion
  \<^verbatim>\<open>new Date(ts).toISOString().slice(0, 10)\<close> of the JavaScript runtime is the
  parameter \<open>isoDate\<close>.
\<close>

definition logFileName :: "(int \<Rightarrow> string) \<Rightarrow> string \<Rightarrow> history_entry \<Rightarrow> string" where
  "logFileName isoDate sessionKey e =
     sanitizeKey sessionKey @ ''-'' @ isoDate (timestamp e) @ ''.jsonl''"

definition logger_append ::
  "(int \<Rightarrow> string) \<Rightarrow> string \<Rightarrow> history_entry \<Rightarrow> conversation_logger \<Rightarrow> conversation_logger" where
  "logger_append isoDate sessionKey e lg =
     (let date = isoDate (timestamp e);
          safe = sanitizeKey sessionKey;
          filename = safe @ ''-'' @ date @ ''.jsonl'';
          line = \<lparr>session = sessionKey, entry = e\<rparr>
      in lg\<lparr>files := (files lg)(filename := files lg filename @ [line])\<rparr>)"

text \<open>
  The character class \<^verbatim>\<open>[A-Za-z0-9_-]\<close> written out, as the disk-log format
  describes it.
\<close>

definition filenameSafeChars :: string where
  "filenameSafeChars = ''abcdefghijklmnopqrstuvwxyzABCDEFGHIJKLMNOPQRSTUVWXYZ0123456789_-''"

subsection \<open>String helpers of the JavaScript runtime\<close>

text \<open>
  \<^verbatim>\<open>String.prototype.trim\<close> strips white space and line terminators from both ends;
  below U+0100 these are the code units 9 to 13, 32 and 160.
\<close>

definition isWhitespace :: "char \<Rightarrow> bool" where
  "isWhitespace c = (let n = (of_char c :: nat) in (9 \<le> n \<and> n \<le> 13) \<or> n = 32 \<or> n = 160)"

definition trim :: "string \<Rightarrow> string" where
  "trim s = rev (dropWhile isWhitespace (rev (dropWhile isWhitespace s)))"

text \<open>
  \<^verbatim>\<open>toLowerCase\<close> on code units below U+0100: the letters A to Z and the Latin-1
  capitals U+00C0 to U+00DE (without the multiplication sign U+00D7) move up by 32.
\<close>

definition lowerChar :: "char \<Rightarrow> char" where
  "lowerChar c =
     (let n = (of_char c :: nat) in
        if (65 \<le> n \<and> n \<le> 90) \<or> (192 \<le> n \<and> n \<le> 222 \<and> n \<noteq> 215)
        then char_of (n + 32) else c)"

definition toLowerCase :: "string \<Rightarrow> string" where
  "toLowerCase s = map lowerChar s"

definition startsWith :: "string \<Rightarrow> string \<Rightarrow> bool" where
  "startsWith s p = (take (length p) s = p)"

text \<open>
  \<^verbatim>\<open>xs.slice(start)\<close> of the runtime: a negative start counts from the end and is
  clamped at the beginning, a non-negative one is clamped at the length.
\<close>

definition js_slice_from :: "int \<Rightarrow> 'a list \<Rightarrow> 'a list" where
  "js_slice_from start xs =
     (let len = int (length xs);
          k = (if start < 0 then max (len + start) 0 else min start len)
      in drop (nat k) xs)"

text \<open>Truthiness of an optional string property: present and not empty.\<close>

fun truthy :: "string option \<Rightarrow> bool" where
  "truthy None = False"
| "truthy (Some v) = (v \<noteq> [])"

subsection \<open>Runs, frames and the server state\<close>

datatype run_state = Running | Completed | Error | Aborted

text \<open>
  The closures pushed onto \<^verbatim>\<open>run.waitResolvers\<close>: the one of \<^verbatim>\<open>handleAgentWait\<close>
  (socket, request id, its timer) and the one of \<^verbatim>\<open>chatAndWait\<close> (its promise).
\<close>

datatype waiter = WaitResponder nat string nat | PromiseResolver nat

record run =
  runId :: string
  sessionKey :: string
  message :: string
  seq :: nat
  state :: run_state
  accumulatedText :: string
  accumulatedThinking :: string
  aborted :: bool
  waitResolvers :: "waiter list"

record tool_call =
  tc_name :: string
  tc_toolCallId :: string
  tc_args :: string
  tc_result :: string
  tc_isError :: "bool option"

record presence_entry =
  host :: string
  version :: string
  platform :: "string option"
  mode :: "string option"
  ts :: int
  instanceId :: string
  reason :: string
  roles :: "string list option"
  scopes :: "string list option"

datatype chat_state = Delta | Final | ChatError

datatype agent_data =
    LifecycleStart int
  | LifecycleEnd int
  | LifecycleError string int

datatype chat_body = ChatMessage "content_part list" int | ChatErrorMessage string

datatype event_payload =
    AgentPayload string string nat string int agent_data
  | ChatPayload "string option" string nat chat_state chat_body
  | PresencePayload "presence_entry list"
  | OtherPayload string

datatype res_payload =
    RunAck string "string option"
  | WaitPayload string run_state string
  | HistoryPayload string "history_entry list"
  | HelloOk nat string string "string list" "presence_entry list" "nat \<times> nat" string

text \<open>
  Frames written to a socket: \<^verbatim>\<open>{type:"res", id, ok:true, payload}\<close>,
  \<^verbatim>\<open>{type:"res", id, ok:false, error:{code, message}}\<close> and
  \<^verbatim>\<open>{type:"event", event, payload, seq?, stateVersion?}\<close>.
\<close>

datatype frame =
    ResOk string res_payload
  | ResError string string string
  | Event string event_payload "nat option" "(nat \<times> nat) option"

record client_info =
  c_id :: "string option"
  c_version :: "string option"
  c_platform :: "string option"
  c_mode :: "string option"
  c_displayName :: "string option"

record params =
  p_sessionKey :: "string option"
  p_message :: "string option"
  p_idempotencyKey :: "string option"
  p_limit :: "int option"
  p_runId :: "string option"
  p_timeoutMs :: "int option"
  p_client :: "client_info option"
  p_minProtocol :: "int option"
  p_maxProtocol :: "int option"
  p_authToken :: "string option"
  p_authPassword :: "string option"
  p_role :: "string option"
  p_scopes :: "string list option"

definition emptyParams :: params where
  "emptyParams = \<lparr>p_sessionKey = None, p_message = None, p_idempotencyKey = None,
     p_limit = None, p_runId = None, p_timeoutMs = None, p_client = None,
     p_minProtocol = None, p_maxProtocol = None, p_authToken = None,
     p_authPassword = None, p_role = None, p_scopes = None\<rparr>"

record request_frame =
  f_type :: "string option"
  f_id :: "string option"
  f_method :: "string option"
  f_params :: "params option"

text \<open>
  What \<^verbatim>\<open>JSON.parse(raw)\<close> gives: a syntax error, the value \<^verbatim>\<open>null\<close> (reading a
  property of it throws), or a value whose properties can be read.
\<close>

datatype parsed = Malformed | JsonNull | JsonValue request_frame

record raw_message =
  raw_length :: int
  raw_json :: parsed

record connection_data =
  connId :: string
  authenticated :: bool
  clientInfo :: "client_info option"
  conn_role :: "string option"
  conn_scopes :: "string list option"

record session_meta =
  label :: "string option"
  createdAt :: int
  lastActiveAt :: int

record resolved_config =
  authToken :: string
  authPassword :: string
  serverVersion :: string
  maxPayload :: int
  tickIntervalMs :: int
  dedupeMaxKeys :: int
  dedupeTtlMs :: int
  greeting :: "string option"

text \<open>A pending \<^verbatim>\<open>setTimeout\<close> of \<^verbatim>\<open>handleAgentWait\<close>.\<close>

record wait_timer =
  t_id :: nat
  t_due :: int
  t_ws :: nat
  t_reqId :: string

text \<open>
  The fields of \<^verbatim>\<open>MiniClawServer\<close>, followed by what the model makes explicit:
  the pending timers, every frame written to a socket (in order), every
  \<^verbatim>\<open>ws.close\<close>, the runs handed to the backend adapter, and the resolved promises
  of \<^verbatim>\<open>chatAndWait\<close>. A socket is a natural number; \<^verbatim>\<open>ws.data\<close> is \<open>wsdata\<close>.
\<close>

record server =
  config :: resolved_config
  wsdata :: "nat \<Rightarrow> connection_data"
  clients :: "nat list"
  presence :: "presence_entry list"
  stateVersion :: "nat \<times> nat"
  runs :: "string \<Rightarrow> run option"
  chatHistory :: "string \<Rightarrow> history_entry list option"
  idempotencyKeys :: "(string \<times> int) list"
  sessionMeta :: "string \<Rightarrow> session_meta option"
  runCounter :: nat
  globalSeq :: nat
  currentModel :: string
  currentProvider :: string
  logger :: "conversation_logger option"
  timers :: "wait_timer list"
  timerCounter :: nat
  sent :: "(nat \<times> frame) list"
  closed :: "(nat \<times> nat \<times> string) list"
  delegated :: "(string \<times> nat option) list"
  resolved :: "(nat \<times> string) list"
  promiseCounter :: nat

section \<open>Operations of the server\<close>

subsection \<open>Writing to sockets\<close>

definition ws_send :: "nat \<Rightarrow> frame \<Rightarrow> server \<Rightarrow> server" where
  "ws_send ws f s = s\<lparr>sent := sent s @ [(ws, f)]\<rparr>"

definition ws_close :: "nat \<Rightarrow> nat \<Rightarrow> string \<Rightarrow> server \<Rightarrow> server" where
  "ws_close ws code why s = s\<lparr>closed := closed s @ [(ws, code, why)]\<rparr>"

definition sendResponse :: "nat \<Rightarrow> string \<Rightarrow> res_payload \<Rightarrow> server \<Rightarrow> server" where
  "sendResponse ws reqId payload s = ws_send ws (ResOk reqId payload) s"

definition sendError :: "nat \<Rightarrow> string \<Rightarrow> string \<Rightarrow> string \<Rightarrow> server \<Rightarrow> server" where
  "sendError ws reqId code msg s = ws_send ws (ResError reqId code msg) s"

text \<open>
  \<^verbatim>\<open>broadcast\<close>: the next global sequence number is stamped on the event, which is
  then written to every socket of \<^verbatim>\<open>this.clients\<close> in insertion order.
\<close>

definition broadcast ::
  "string \<Rightarrow> event_payload \<Rightarrow> (nat \<times> nat) option \<Rightarrow> server \<Rightarrow> server" where
  "broadcast name payload sv s =
     (let g = globalSeq s + 1;
          s1 = s\<lparr>globalSeq := g\<rparr>
      in foldl (\<lambda>acc client. ws_send client (Event name payload (Some g) sv) acc) s1 (clients s1))"

subsection \<open>Idempotency cache\<close>

text \<open>
  \<^verbatim>\<open>this.idempotencyKeys\<close> is a \<^verbatim>\<open>Map\<close>: an association list in insertion
  order with distinct keys. \<^verbatim>\<open>set\<close> on a key already present keeps its position.
\<close>

fun map_set :: "string \<Rightarrow> int \<Rightarrow> (string \<times> int) list \<Rightarrow> (string \<times> int) list" where
  "map_set k v [] = [(k, v)]"
| "map_set k v ((k', v') # m) = (if k' = k then (k, v) # m else (k', v') # map_set k v m)"

definition map_delete :: "string \<Rightarrow> (string \<times> int) list \<Rightarrow> (string \<times> int) list" where
  "map_delete k m = filter (\<lambda>kv. fst kv \<noteq> k) m"

definition isDuplicateKey :: "int \<Rightarrow> string \<Rightarrow> server \<Rightarrow> bool \<times> server" where
  "isDuplicateKey now key s =
     (case map_of (idempotencyKeys s) key of
        None \<Rightarrow> (False, s)
      | Some firstSeen \<Rightarrow>
          if now - firstSeen > dedupeTtlMs (config s)
          then (False, s\<lparr>idempotencyKeys := map_delete key (idempotencyKeys s)\<rparr>)
          else (True, s))"

text \<open>
  \<^verbatim>\<open>recordIdempotencyKey\<close>. The oldest key is the first one of the iteration order;
  \<^verbatim>\<open>if (oldest)\<close> fails on an empty map and on the empty string.
\<close>

definition recordIdempotencyKey :: "int \<Rightarrow> string \<Rightarrow> server \<Rightarrow> server" where
  "recordIdempotencyKey now key s =
     (let m = idempotencyKeys s;
          m1 = (if int (length m) \<ge> dedupeMaxKeys (config s)
                then (case m of
                        [] \<Rightarrow> m
                      | (oldest, _) # _ \<Rightarrow> if oldest \<noteq> [] then map_delete oldest m else m)
                else m)
      in s\<lparr>idempotencyKeys := map_set key now m1\<rparr>)"

text \<open>The periodic sweeper started by \<^verbatim>\<open>startDedupeCleanup\<close>, one firing.\<close>

definition dedupeCleanup :: "int \<Rightarrow> server \<Rightarrow> server" where
  "dedupeCleanup now s =
     s\<lparr>idempotencyKeys :=
         filter (\<lambda>kv. \<not> (now - snd kv > dedupeTtlMs (config s))) (idempotencyKeys s)\<rparr>"

subsection \<open>Sessions and history\<close>

definition ensureSessionMeta :: "int \<Rightarrow> string \<Rightarrow> server \<Rightarrow> server" where
  "ensureSessionMeta now key s =
     (case sessionMeta s key of
        Some meta \<Rightarrow> s
      | None \<Rightarrow> s\<lparr>sessionMeta := (sessionMeta s)
                    (key \<mapsto> \<lparr>label = None, createdAt = now, lastActiveAt = now\<rparr>)\<rparr>)"

definition touchSessionMeta :: "int \<Rightarrow> string \<Rightarrow> server \<Rightarrow> server" where
  "touchSessionMeta now key s =
     (case sessionMeta s key of
        None \<Rightarrow> s
      | Some meta \<Rightarrow> s\<lparr>sessionMeta := (sessionMeta s)(key \<mapsto> meta\<lparr>lastActiveAt := now\<rparr>)\<rparr>)"

text \<open>
  \<^verbatim>\<open>appendHistory\<close>: push the entry, refresh the session metadata, and hand the
  entry with the caller's session key to the disk logger when there is one.
\<close>

definition appendHistory ::
  "(int \<Rightarrow> string) \<Rightarrow> int \<Rightarrow> string \<Rightarrow> history_entry \<Rightarrow> server \<Rightarrow> server" where
  "appendHistory isoDate now key e s =
     (let history = (case chatHistory s key of None \<Rightarrow> [] | Some h \<Rightarrow> h);
          s1 = s\<lparr>chatHistory := (chatHistory s)(key \<mapsto> history @ [e])\<rparr>;
          s2 = touchSessionMeta now key (ensureSessionMeta now key s1)
      in s2\<lparr>logger := map_option (logger_append isoDate key e) (logger s2)\<rparr>)"

definition getChatHistory :: "server \<Rightarrow> string \<Rightarrow> history_entry list" where
  "getChatHistory s key = (case chatHistory s key of None \<Rightarrow> [] | Some h \<Rightarrow> h)"

subsection \<open>Runs and their events\<close>

text \<open>\<^verbatim>\<open>n.toString(36)\<close> for the run counter.\<close>

definition digit36 :: "nat \<Rightarrow> char" where
  "digit36 d = (if d < 10 then char_of (48 + d) else char_of (87 + d))"

fun toString36 :: "nat \<Rightarrow> string" where
  "toString36 n = (if n < 36 then [digit36 n] else toString36 (n div 36) @ [digit36 (n mod 36)])"

declare toString36.simps [simp del]

definition createRun :: "string \<Rightarrow> string \<Rightarrow> server \<Rightarrow> string \<times> server" where
  "createRun key msg s =
     (let c = runCounter s + 1;
          rid = ''run_'' @ toString36 c;
          r = \<lparr>runId = rid, sessionKey = key, message = msg, seq = 0, state = Running,
               accumulatedText = [], accumulatedThinking = [], aborted = False,
               waitResolvers = []\<rparr>
      in (rid, s\<lparr>runCounter := c, runs := (runs s)(rid \<mapsto> r)\<rparr>))"

text \<open>
  A \<^verbatim>\<open>Run\<close> object is shared between \<^verbatim>\<open>this.runs\<close> and its users, so the
  operations below take the run's id and update the stored run. An id that is not in the
  table stands for a reference to no object; the server never removes a run.
\<close>

definition emitAgentEvent :: "int \<Rightarrow> string \<Rightarrow> string \<Rightarrow> agent_data \<Rightarrow> server \<Rightarrow> server" where
  "emitAgentEvent now rid stream data s =
     (case runs s rid of
        None \<Rightarrow> s
      | Some r \<Rightarrow>
          let r1 = r\<lparr>seq := seq r + 1\<rparr>;
              s1 = s\<lparr>runs := (runs s)(rid \<mapsto> r1)\<rparr>
          in broadcast ''agent''
               (AgentPayload (runId r1) (sessionKey r1) (seq r1) stream now data) None s1)"

definition emitChatEvent :: "int \<Rightarrow> string \<Rightarrow> chat_state \<Rightarrow> string \<Rightarrow> server \<Rightarrow> server" where
  "emitChatEvent now rid st textOrError s =
     (case runs s rid of
        None \<Rightarrow> s
      | Some r \<Rightarrow>
          let body =
                (if st = ChatError then ChatErrorMessage textOrError
                 else ChatMessage
                        ((if accumulatedThinking r \<noteq> []
                          then [ThinkingPart (accumulatedThinking r)] else [])
                         @ [TextPart textOrError]) now)
          in broadcast ''chat''
               (ChatPayload (Some (runId r)) (sessionKey r) (seq r) st body) None s)"

definition clearTimeout :: "nat \<Rightarrow> server \<Rightarrow> server" where
  "clearTimeout tid s = s\<lparr>timers := filter (\<lambda>t. t_id t \<noteq> tid) (timers s)\<rparr>"

text \<open>
  Calling one resolver with \<^verbatim>\<open>{runId, state, text}\<close>: the closure of
  \<^verbatim>\<open>handleAgentWait\<close> clears its timer and sends the response; the closure of
  \<^verbatim>\<open>chatAndWait\<close> resolves its promise with the text.
\<close>

fun resolveWaiter :: "string \<Rightarrow> run_state \<Rightarrow> string \<Rightarrow> waiter \<Rightarrow> server \<Rightarrow> server" where
  "resolveWaiter rid st txt (WaitResponder ws reqId timer) s =
     sendResponse ws reqId (WaitPayload rid st txt) (clearTimeout timer s)"
| "resolveWaiter rid st txt (PromiseResolver pid) s = s\<lparr>resolved := resolved s @ [(pid, txt)]\<rparr>"

definition toolCallPart :: "tool_call \<Rightarrow> content_part" where
  "toolCallPart tc =
     ToolCallPart (tc_name tc) (tc_toolCallId tc) (tc_args tc)
       (if tc_isError tc = Some True then ''error'' else ''success'')
       (tc_result tc) (tc_isError tc)"

text \<open>
  \<^verbatim>\<open>finishRun(run, state, errorMessage?, externalContentParts?)\<close>. The parameter
  \<open>matchResponse\<close> gives the \<^verbatim>\<open>toolCalls\<close> of the demo response matched by a message
  (\<^verbatim>\<open>src/demo-responses.ts\<close>). The declared type of \<open>st\<close> in the source is
  \<^verbatim>\<open>"completed" | "error"\<close>.
\<close>

definition finishRun ::
  "(string \<Rightarrow> tool_call list option) \<Rightarrow> (int \<Rightarrow> string) \<Rightarrow> int \<Rightarrow> string \<Rightarrow> run_state
   \<Rightarrow> string option \<Rightarrow> content_part list option \<Rightarrow> server \<Rightarrow> server" where
  "finishRun matchResponse isoDate now rid st errorMessage externalContentParts s =
     (case runs s rid of
        None \<Rightarrow> s
      | Some r0 \<Rightarrow>
          let s1 = s\<lparr>runs := (runs s)(rid \<mapsto> r0\<lparr>state := st\<rparr>)\<rparr>;
              s2 =
                (if st = Completed then
                   let a = emitAgentEvent now rid ''lifecycle'' (LifecycleEnd now) s1;
                       b = emitChatEvent now rid Final (accumulatedText r0) a;
                       contentParts =
                         (case externalContentParts of
                            Some parts \<Rightarrow> parts
                          | None \<Rightarrow>
                              (case matchResponse (message r0) of
                                 None \<Rightarrow> []
                               | Some tcs \<Rightarrow> map toolCallPart tcs)
                              @ [TextPart (accumulatedText r0)])
                   in appendHistory isoDate now (sessionKey r0)
                        \<lparr>role = Assistant, content = contentParts, timestamp = now,
                         stopReason = Some ''end_turn'', model = None, provider = None\<rparr> b
                 else
                   let err = (case errorMessage of None \<Rightarrow> ''Unknown error'' | Some m \<Rightarrow> m);
                       a = emitAgentEvent now rid ''lifecycle'' (LifecycleError err now) s1
                   in emitChatEvent now rid ChatError err a);
              s3 = touchSessionMeta now (sessionKey r0) s2;
              s4 = foldl (\<lambda>acc w. resolveWaiter (runId r0) st (accumulatedText r0) w acc)
                     s3 (waitResolvers r0)
          in s4\<lparr>runs := (runs s4)(rid := map_option (\<lambda>r. r\<lparr>waitResolvers := []\<rparr>) (runs s4 rid))\<rparr>)"

subsection \<open>Slash commands and run execution\<close>

record slash_result =
  sr_text :: string
  sr_stopReason :: "string option"
  sr_model :: "string option"
  sr_provider :: "string option"

text \<open>The em dash U+2014 of the help text, kept as its three UTF-8 bytes.\<close>

definition emDash :: string where
  "emDash = [CHR 0xE2, CHR 0x80, CHR 0x94]"

definition helpText :: string where
  "helpText =
     ''Available commands:'' @ [CHR 0x0A]
     @ ''  /new     '' @ emDash @ '' Start a new session'' @ [CHR 0x0A]
     @ ''  /model   '' @ emDash @ '' Show current model'' @ [CHR 0x0A]
     @ ''  /model <name> '' @ emDash @ '' Switch model'' @ [CHR 0x0A]
     @ ''  /models  '' @ emDash @ '' List available models'' @ [CHR 0x0A]
     @ ''  /help    '' @ emDash @ '' Show this help''"

text \<open>
  \<^verbatim>\<open>handleSlashCommand(run, lower)\<close>. Its declared result may be \<^verbatim>\<open>null\<close>, which
  is \<open>None\<close>; no command sets \<^verbatim>\<open>stopReason\<close>.
\<close>

definition handleSlashCommand :: "run \<Rightarrow> string \<Rightarrow> server \<Rightarrow> slash_result option \<times> server" where
  "handleSlashCommand r lower s =
     (if lower = ''/new'' then
        (Some \<lparr>sr_text = ''Session cleared. How can I help you?'', sr_stopReason = None,
               sr_model = None, sr_provider = None\<rparr>,
         s\<lparr>chatHistory := (chatHistory s)(sessionKey r := None)\<rparr>)
      else if lower = ''/models'' then
        (Some \<lparr>sr_text = ''Available models:'' @ [CHR 0x0A] @ ''- '' @ currentModel s
                          @ '' ('' @ currentProvider s @ '')'',
               sr_stopReason = None,
               sr_model = Some (currentModel s), sr_provider = Some (currentProvider s)\<rparr>, s)
      else if lower = ''/model'' then
        (Some \<lparr>sr_text = ''Current model: '' @ currentModel s, sr_stopReason = None,
               sr_model = Some (currentModel s), sr_provider = Some (currentProvider s)\<rparr>, s)
      else if startsWith lower ''/model '' then
        (let requested = trim (drop (length ''/model '') (trim (message r)))
         in if requested \<noteq> [] then
              (Some \<lparr>sr_text = ''Model set to '' @ requested, sr_stopReason = None,
                     sr_model = Some requested, sr_provider = Some (currentProvider s)\<rparr>,
               s\<lparr>currentModel := requested\<rparr>)
            else
              (Some \<lparr>sr_text = ''Current model: '' @ currentModel s, sr_stopReason = None,
                     sr_model = Some (currentModel s),
                     sr_provider = Some (currentProvider s)\<rparr>, s))
      else if lower = ''/help'' then
        (Some \<lparr>sr_text = helpText, sr_stopReason = None, sr_model = None,
               sr_provider = None\<rparr>, s)
      else
        (Some \<lparr>sr_text = ''Unknown command: '' @ takeWhile (\<lambda>c. c \<noteq> CHR '' '') lower
                          @ ''. Type /help for available commands.'',
               sr_stopReason = None, sr_model = None, sr_provider = None\<rparr>, s))"

text \<open>
  \<^verbatim>\<open>executeRun(run, ws)\<close>. The slash-command branch has no suspension point and runs
  to its end inside the call. Otherwise the run goes to the backend adapter (the external
  \<^verbatim>\<open>onAgentRun\<close> or the demo responses): the model records the hand-over in
  \<open>delegated\<close>; what the adapter does afterwards are further calls of
  \<open>emitAgentEvent\<close>, \<open>emitChatEvent\<close> and \<open>finishRun\<close>.
\<close>

definition delegateRun :: "string \<Rightarrow> nat option \<Rightarrow> server \<Rightarrow> server" where
  "delegateRun rid ws s = s\<lparr>delegated := delegated s @ [(rid, ws)]\<rparr>"

definition executeRun ::
  "(string \<Rightarrow> tool_call list option) \<Rightarrow> (int \<Rightarrow> string) \<Rightarrow> int \<Rightarrow> string \<Rightarrow> nat option
   \<Rightarrow> server \<Rightarrow> server" where
  "executeRun matchResponse isoDate now rid ws s =
     (case runs s rid of
        None \<Rightarrow> s
      | Some r \<Rightarrow>
          let trimmed = trim (message r);
              lower = toLowerCase trimmed
          in if startsWith lower ''/'' then
               (case handleSlashCommand r lower s of
                  (None, s0) \<Rightarrow> delegateRun rid ws s0
                | (Some result, s0) \<Rightarrow>
                    let s1 = emitAgentEvent now rid ''lifecycle'' (LifecycleStart now) s0;
                        s2 = s1\<lparr>runs := (runs s1)
                               (rid := map_option (\<lambda>x. x\<lparr>accumulatedText := sr_text result\<rparr>)
                                         (runs s1 rid))\<rparr>;
                        s3 = emitChatEvent now rid Delta (sr_text result) s2;
                        s4 = appendHistory isoDate now (sessionKey r)
                               \<lparr>role = Assistant, content = [TextPart (sr_text result)],
                                timestamp = now,
                                stopReason = Some (case sr_stopReason result of
                                                     None \<Rightarrow> ''stop'' | Some x \<Rightarrow> x),
                                model = Some (case sr_model result of
                                                None \<Rightarrow> currentModel s3 | Some x \<Rightarrow> x),
                                provider = Some (case sr_provider result of
                                                   None \<Rightarrow> currentProvider s3 | Some x \<Rightarrow> x)\<rparr>
                               s3
                    in finishRun matchResponse isoDate now rid Completed None
                         (Some [TextPart (sr_text result)]) s4)
             else delegateRun rid ws s)"

subsection \<open>Method handlers\<close>

definition userEntry :: "int \<Rightarrow> string \<Rightarrow> history_entry" where
  "userEntry now msg =
     \<lparr>role = User, content = [TextPart msg], timestamp = now, stopReason = None,
      model = None, provider = None\<rparr>"

definition handleChatSend ::
  "(string \<Rightarrow> tool_call list option) \<Rightarrow> (int \<Rightarrow> string) \<Rightarrow> int \<Rightarrow> nat \<Rightarrow> string \<Rightarrow> params
   \<Rightarrow> server \<Rightarrow> server" where
  "handleChatSend matchResponse isoDate now ws reqId p s =
     (case (p_sessionKey p, p_message p, p_idempotencyKey p) of
        (Some key, Some msg, Some idem) \<Rightarrow>
          if key = [] \<or> msg = [] \<or> idem = [] then
            sendError ws reqId ''INVALID_REQUEST''
              ''Missing sessionKey, message, or idempotencyKey'' s
          else
            (case isDuplicateKey now idem s of
               (True, s0) \<Rightarrow>
                 sendError ws reqId ''INVALID_REQUEST'' ''Duplicate idempotency key'' s0
             | (False, s0) \<Rightarrow>
                 let s1 = recordIdempotencyKey now idem s0;
                     s2 = ensureSessionMeta now key s1;
                     (rid, s3) = createRun key msg s2;
                     s4 = appendHistory isoDate now key (userEntry now msg) s3;
                     s5 = ws_send ws (ResOk reqId (RunAck rid (Some key))) s4
                 in executeRun matchResponse isoDate now rid (Some ws) s5)
      | _ \<Rightarrow>
          sendError ws reqId ''INVALID_REQUEST''
            ''Missing sessionKey, message, or idempotencyKey'' s)"

definition handleAgent ::
  "(string \<Rightarrow> tool_call list option) \<Rightarrow> (int \<Rightarrow> string) \<Rightarrow> int \<Rightarrow> nat \<Rightarrow> string \<Rightarrow> params
   \<Rightarrow> server \<Rightarrow> server" where
  "handleAgent matchResponse isoDate now ws reqId p s =
     (case (p_message p, p_idempotencyKey p) of
        (Some msg, Some idem) \<Rightarrow>
          if msg = [] \<or> idem = [] then
            sendError ws reqId ''INVALID_REQUEST'' ''Missing message or idempotencyKey'' s
          else
            (case isDuplicateKey now idem s of
               (True, s0) \<Rightarrow>
                 sendError ws reqId ''INVALID_REQUEST'' ''Duplicate idempotency key'' s0
             | (False, s0) \<Rightarrow>
                 let s1 = recordIdempotencyKey now idem s0;
                     key = (case p_sessionKey p of None \<Rightarrow> ''default'' | Some k \<Rightarrow> k);
                     s2 = ensureSessionMeta now key s1;
                     (rid, s3) = createRun key msg s2;
                     s4 = sendResponse ws reqId (RunAck rid None) s3
                 in executeRun matchResponse isoDate now rid (Some ws) s4)
      | _ \<Rightarrow> sendError ws reqId ''INVALID_REQUEST'' ''Missing message or idempotencyKey'' s)"

text \<open>
  \<^verbatim>\<open>chatAndWait\<close>, the entry used by the HTTP surface: the result is the promise it
  returns, resolved later through \<open>resolved\<close>.
\<close>

definition chatAndWait ::
  "(string \<Rightarrow> tool_call list option) \<Rightarrow> (int \<Rightarrow> string) \<Rightarrow> int \<Rightarrow> string \<Rightarrow> string
   \<Rightarrow> server \<Rightarrow> nat \<times> server" where
  "chatAndWait matchResponse isoDate now key msg s =
     (let (rid, s1) = createRun key msg s;
          s2 = appendHistory isoDate now key (userEntry now msg) s1;
          pid = promiseCounter s2 + 1;
          s3 = s2\<lparr>promiseCounter := pid,
                  runs := (runs s2)
                    (rid := map_option
                       (\<lambda>r. r\<lparr>waitResolvers := waitResolvers r @ [PromiseResolver pid]\<rparr>)
                       (runs s2 rid))\<rparr>
      in (pid, executeRun matchResponse isoDate now rid None s3))"

text \<open>
  \<^verbatim>\<open>handleAgentWait\<close>. For a running run it arms a timer and pushes a resolver; the
  timer's callback is \<open>fireTimer\<close>.
\<close>

definition handleAgentWait :: "int \<Rightarrow> nat \<Rightarrow> string \<Rightarrow> params \<Rightarrow> server \<Rightarrow> server" where
  "handleAgentWait now ws reqId p s =
     (case p_runId p of
        None \<Rightarrow> sendError ws reqId ''INVALID_REQUEST'' ''Missing runId'' s
      | Some rid \<Rightarrow>
          if rid = [] then sendError ws reqId ''INVALID_REQUEST'' ''Missing runId'' s
          else
            (case runs s rid of
               None \<Rightarrow> sendError ws reqId ''INVALID_REQUEST'' ''Unknown runId'' s
             | Some r \<Rightarrow>
                 if state r \<noteq> Running then
                   sendResponse ws reqId
                     (WaitPayload (runId r) (state r) (accumulatedText r)) s
                 else
                   let timeoutMs = (case p_timeoutMs p of None \<Rightarrow> 60000 | Some t \<Rightarrow> t);
                       tid = timerCounter s + 1;
                       timer = \<lparr>t_id = tid, t_due = now + timeoutMs, t_ws = ws,
                                t_reqId = reqId\<rparr>
                   in s\<lparr>timerCounter := tid,
                        timers := timers s @ [timer],
                        runs := (runs s)
                          (rid \<mapsto> r\<lparr>waitResolvers :=
                                       waitResolvers r @ [WaitResponder ws reqId tid]\<rparr>)\<rparr>))"

text \<open>
  The callback of the timer armed by \<^verbatim>\<open>handleAgentWait\<close>, run by the event loop once
  the timer is due and has not been cleared.
\<close>

definition fireTimer :: "int \<Rightarrow> nat \<Rightarrow> server \<Rightarrow> server" where
  "fireTimer now tid s =
     (case find (\<lambda>t. t_id t = tid) (timers s) of
        None \<Rightarrow> s
      | Some t \<Rightarrow>
          if t_due t \<le> now then
            sendError (t_ws t) (t_reqId t) ''AGENT_TIMEOUT'' ''Wait timed out''
              (s\<lparr>timers := filter (\<lambda>x. t_id x \<noteq> tid) (timers s)\<rparr>)
          else s)"

definition handleChatHistory ::
  "(int \<Rightarrow> string) \<Rightarrow> int \<Rightarrow> nat \<Rightarrow> string \<Rightarrow> params \<Rightarrow> server \<Rightarrow> server" where
  "handleChatHistory isoDate now ws reqId p s =
     (case p_sessionKey p of
        None \<Rightarrow> sendError ws reqId ''INVALID_REQUEST'' ''Missing sessionKey'' s
      | Some key \<Rightarrow>
          if key = [] then sendError ws reqId ''INVALID_REQUEST'' ''Missing sessionKey'' s
          else
            let limit = min (case p_limit p of None \<Rightarrow> 50 | Some n \<Rightarrow> n) 1000;
                history = (case chatHistory s key of None \<Rightarrow> [] | Some h \<Rightarrow> h);
                messages = js_slice_from (- limit) history;
                s1 = sendResponse ws reqId (HistoryPayload key messages) s
            in (case greeting (config s) of
                  None \<Rightarrow> s1
                | Some g \<Rightarrow>
                    if history = [] \<and> g \<noteq> [] then
                      appendHistory isoDate now key
                        \<lparr>role = Assistant, content = [TextPart g], timestamp = now,
                         stopReason = Some ''end_turn'', model = None, provider = None\<rparr>
                        (ws_send ws
                           (Event ''chat''
                              (ChatPayload None key 0 Final (ChatMessage [TextPart g] now))
                              None None) s1)
                    else s1))"

subsection \<open>Handshake and frame routing\<close>

definition PROTOCOL_VERSION :: int where
  "PROTOCOL_VERSION = 3"

definition broadcastPresence :: "server \<Rightarrow> server" where
  "broadcastPresence s =
     broadcast ''presence'' (PresencePayload (presence s)) (Some (stateVersion s)) s"

definition rejectConnect :: "nat \<Rightarrow> string \<Rightarrow> string \<Rightarrow> string \<Rightarrow> server \<Rightarrow> server" where
  "rejectConnect ws reqId msg why s =
     ws_close ws 1008 why (sendError ws reqId ''INVALID_REQUEST'' msg s)"

text \<open>
  \<^verbatim>\<open>handleConnect(ws, frame)\<close>, called with a frame whose id is a non-empty string.
  \<open>methodNames\<close> are the keys of the method registry. The handshake watchdog timer and
  the constant parts of the \<^verbatim>\<open>hello-ok\<close> payload are left out.
\<close>

definition handleConnect ::
  "string list \<Rightarrow> int \<Rightarrow> nat \<Rightarrow> string \<Rightarrow> params option \<Rightarrow> server \<Rightarrow> server" where
  "handleConnect methodNames now ws reqId ps s =
     (case ps of
        None \<Rightarrow>
          rejectConnect ws reqId ''Missing client.id or client.version''
            ''Invalid connect params'' s
      | Some p \<Rightarrow>
          (case p_client p of
             None \<Rightarrow>
               rejectConnect ws reqId ''Missing client.id or client.version''
                 ''Invalid connect params'' s
           | Some cl \<Rightarrow>
               if \<not> truthy (c_id cl) \<or> \<not> truthy (c_version cl) then
                 rejectConnect ws reqId ''Missing client.id or client.version''
                   ''Invalid connect params'' s
               else if PROTOCOL_VERSION < (case p_minProtocol p of None \<Rightarrow> 1 | Some n \<Rightarrow> n)
                     \<or> PROTOCOL_VERSION > (case p_maxProtocol p of None \<Rightarrow> 1 | Some n \<Rightarrow> n) then
                 rejectConnect ws reqId ''Protocol mismatch'' ''Protocol mismatch'' s
               else if authToken (config s) \<noteq> []
                     \<and> p_authToken p \<noteq> Some (authToken (config s)) then
                 rejectConnect ws reqId ''Authentication failed'' ''Authentication failed'' s
               else if authToken (config s) = [] \<and> authPassword (config s) \<noteq> []
                     \<and> p_authPassword p \<noteq> Some (authPassword (config s)) then
                 rejectConnect ws reqId ''Authentication failed'' ''Authentication failed'' s
               else
                 let d = (wsdata s ws)\<lparr>authenticated := True, clientInfo := Some cl,
                            conn_role := p_role p, conn_scopes := p_scopes p\<rparr>;
                     cid = (case c_id cl of None \<Rightarrow> [] | Some x \<Rightarrow> x);
                     pe = \<lparr>host = (case c_displayName cl of None \<Rightarrow> cid | Some x \<Rightarrow> x),
                           version = (case c_version cl of None \<Rightarrow> [] | Some x \<Rightarrow> x),
                           platform = c_platform cl, mode = c_mode cl, ts = now,
                           instanceId = connId d, reason = ''connect'',
                           roles = (if truthy (p_role p)
                                    then Some [case p_role p of None \<Rightarrow> [] | Some x \<Rightarrow> x]
                                    else None),
                           scopes = p_scopes p\<rparr>;
                     s1 = s\<lparr>wsdata := (wsdata s)(ws := d),
                            clients := (if ws \<in> set (clients s) then clients s
                                        else clients s @ [ws]),
                            presence := presence s @ [pe],
                            stateVersion := (fst (stateVersion s) + 1, snd (stateVersion s))\<rparr>;
                     authMode = (if authToken (config s) \<noteq> [] then ''token''
                                 else if authPassword (config s) \<noteq> [] then ''password''
                                 else ''none'');
                     s2 = ws_send ws
                            (ResOk reqId
                               (HelloOk (nat PROTOCOL_VERSION) (serverVersion (config s))
                                  (connId d) methodNames (presence s1) (stateVersion s1)
                                  authMode)) s1
                 in broadcastPresence s2))"

text \<open>
  \<^verbatim>\<open>handleMessage(ws, raw)\<close>. The method registry built by the constructor is the
  parameter \<open>methods\<close> (with \<open>methodNames\<close> its keys); a handler gets the socket, the
  request id and the params. Reading \<^verbatim>\<open>frame.type\<close> of \<^verbatim>\<open>null\<close> throws, which
  leaves the state as it is.
\<close>

definition handleMessage ::
  "(string \<Rightarrow> (nat \<Rightarrow> string \<Rightarrow> params \<Rightarrow> server \<Rightarrow> server) option) \<Rightarrow> string list \<Rightarrow> int
   \<Rightarrow> nat \<Rightarrow> raw_message \<Rightarrow> server \<Rightarrow> server" where
  "handleMessage methods methodNames now ws raw s =
     (if raw_length raw > maxPayload (config s) then
        ws_close ws 1009 ''Payload too large''
          (sendError ws ''unknown'' ''INVALID_REQUEST'' ''Payload too large'' s)
      else
        (case raw_json raw of
           Malformed \<Rightarrow> sendError ws ''unknown'' ''INVALID_REQUEST'' ''Malformed JSON'' s
         | JsonNull \<Rightarrow> s
         | JsonValue fr \<Rightarrow>
             if f_type fr \<noteq> Some ''req'' then
               sendError ws ''unknown'' ''INVALID_REQUEST'' ''Expected type: req'' s
             else if \<not> truthy (f_id fr) \<or> \<not> truthy (f_method fr) then
               sendError ws (case f_id fr of None \<Rightarrow> ''unknown'' | Some x \<Rightarrow> x)
                 ''INVALID_REQUEST'' ''Missing id or method'' s
             else
               (let reqId = (case f_id fr of None \<Rightarrow> [] | Some x \<Rightarrow> x);
                    method = (case f_method fr of None \<Rightarrow> [] | Some x \<Rightarrow> x)
                in if \<not> authenticated (wsdata s ws) then
                     (if method \<noteq> ''connect'' then
                        ws_close ws 1008 ''First message must be connect''
                          (sendError ws reqId ''INVALID_REQUEST''
                             ''First message must be connect'' s)
                      else handleConnect methodNames now ws reqId (f_params fr) s)
                   else
                     (case methods method of
                        None \<Rightarrow>
                          sendError ws reqId ''INVALID_REQUEST'' (''Unknown method: '' @ method) s
                      | Some handler \<Rightarrow>
                          handler ws reqId
                            (case f_params fr of None \<Rightarrow> emptyParams | Some x \<Rightarrow> x) s))))"

subsection \<open>HTTP completions surface\<close>

text \<open>
  The synchronous part of \<^verbatim>\<open>handleHttpChatCompletions\<close>: the authorization gate.
  \<open>authHeader\<close> is \<^verbatim>\<open>req.headers.get("authorization")\<close>, \<open>None\<close> when the header is
  missing. Past the gate the response is the stream that later runs \<open>chatAndWait\<close>.
\<close>

datatype http_body = AuthError | CompletionStream

datatype http_response = Response nat http_body

fun http_status :: "http_response \<Rightarrow> nat" where
  "http_status (Response code b) = code"

definition handleHttpChatCompletions :: "string option \<Rightarrow> server \<Rightarrow> http_response" where
  "handleHttpChatCompletions authHeader s =
     (if authToken (config s) \<noteq> [] \<and> authHeader \<noteq> Some (''Bearer '' @ authToken (config s))
      then Response 401 AuthError
      else Response 200 CompletionStream)"

subsection \<open>Observations on a state\<close>

text \<open>The response frames with a given request id that were written to a socket.\<close>

fun isResponseTo :: "string \<Rightarrow> frame \<Rightarrow> bool" where
  "isResponseTo reqId (ResOk i p) = (i = reqId)"
| "isResponseTo reqId (ResError i c m) = (i = reqId)"
| "isResponseTo reqId (Event n p g v) = False"

definition responsesTo :: "nat \<Rightarrow> string \<Rightarrow> server \<Rightarrow> frame list" where
  "responsesTo ws reqId s =
     filter (isResponseTo reqId) (map snd (filter (\<lambda>wf. fst wf = ws) (sent s)))"

text \<open>
  What resolving one waiter with \<^verbatim>\<open>{runId, state, text}\<close> makes visible: a response
  frame for a waiter of \<^verbatim>\<open>agent.wait\<close>, a resolved promise for one of
  \<^verbatim>\<open>chatAndWait\<close>.
\<close>

fun waiterFrame :: "string \<Rightarrow> run_state \<Rightarrow> string \<Rightarrow> waiter \<Rightarrow> (nat \<times> frame) list" where
  "waiterFrame rid st txt (WaitResponder ws reqId timer) =
     [(ws, ResOk reqId (WaitPayload rid st txt))]"
| "waiterFrame rid st txt (PromiseResolver pid) = []"

fun waiterPromise :: "string \<Rightarrow> waiter \<Rightarrow> (nat \<times> string) list" where
  "waiterPromise txt (WaitResponder ws reqId timer) = []"
| "waiterPromise txt (PromiseResolver pid) = [(pid, txt)]"

text \<open>
  Operations on the idempotency cache: a probe, a record and one firing of the sweeper.
  The callers of \<^verbatim>\<open>recordIdempotencyKey\<close> reject an empty key before recording, which
  is \<open>opKeyOk\<close>. A well-formed cache holds at most \<^verbatim>\<open>dedupeMaxKeys\<close> entries, with
  distinct non-empty keys.
\<close>

datatype cache_op = Probe int string | Record int string | Sweep int

fun applyOp :: "cache_op \<Rightarrow> server \<Rightarrow> server" where
  "applyOp (Probe now k) s = snd (isDuplicateKey now k s)"
| "applyOp (Record now k) s = recordIdempotencyKey now k s"
| "applyOp (Sweep now) s = dedupeCleanup now s"



subsection \<open>Construction and example values\<close>

text \<open>The defaults of the constructor, and the server right after construction.\<close>

definition defaultConfig :: resolved_config where
  "defaultConfig =
     \<lparr>authToken = [], authPassword = [], serverVersion = ''2026.2.23'',
      maxPayload = 26214400, tickIntervalMs = 30000, dedupeMaxKeys = 1000,
      dedupeTtlMs = 300000, greeting = None\<rparr>"

definition newServer :: "resolved_config \<Rightarrow> server" where
  "newServer cfg =
     \<lparr>config = cfg,
      wsdata = (\<lambda>ws. \<lparr>connId = [], authenticated = False, clientInfo = None,
                       conn_role = None, conn_scopes = None\<rparr>),
      clients = [], presence = [], stateVersion = (0, 0), runs = (\<lambda>k. None),
      chatHistory = (\<lambda>k. None), idempotencyKeys = [], sessionMeta = (\<lambda>k. None),
      runCounter = 0, globalSeq = 0, currentModel = ''demo'', currentProvider = ''miniclaw'',
      logger = None, timers = [], timerCounter = 0, sent = [], closed = [], delegated = [],
      resolved = [], promiseCounter = 0\<rparr>"

definition exampleEntry :: history_entry where
  "exampleEntry =
     \<lparr>role = User, content = [TextPart ''x''], timestamp = 0, stopReason = None,
      model = None, provider = None\<rparr>"

definition exampleLogger :: conversation_logger where
  "exampleLogger = \<lparr>dir = ''logs'', files = (\<lambda>f. [])\<rparr>"

definition exampleRun :: run where
  "exampleRun =
     \<lparr>runId = ''run_1'', sessionKey = ''main'', message = ''hello'', seq = 1, state = Running,
      accumulatedText = ''par'', accumulatedThinking = [], aborted = False,
      waitResolvers = [WaitResponder 1 ''r2'' 1, PromiseResolver 1]\<rparr>"

text \<open>A server with one authenticated client and one running run that has two waiters.\<close>

definition exampleServer :: server where
  "exampleServer =
     (newServer defaultConfig)
       \<lparr>clients := [1],
        runs := [''run_1'' \<mapsto> exampleRun],
        chatHistory := [''main'' \<mapsto> [exampleEntry]],
        runCounter := 1,
        timers := [\<lparr>t_id = 1, t_due = 60000, t_ws = 1, t_reqId = ''r2''\<rparr>],
        timerCounter := 1,
        promiseCounter := 1\<rparr>"

text \<open>A cache of capacity \<open>n\<close> holding the keys \<^verbatim>\<open>a\<close> and \<^verbatim>\<open>b\<close>, recorded at 10 and 20.\<close>

definition exampleCache :: "int \<Rightarrow> server" where
  "exampleCache n =
     (newServer (defaultConfig\<lparr>dedupeMaxKeys := n, dedupeTtlMs := 100\<rparr>))
       \<lparr>idempotencyKeys := [(''a'', 10), (''b'', 20)]\<rparr>"

text \<open>The example run with the message \<^verbatim>\<open>" /Model "\<close>.\<close>

definition slashRun :: run where
  "slashRun = exampleRun\<lparr>message := '' /Model '', waitResolvers := []\<rparr>"

definition slashServer :: server where
  "slashServer = exampleServer\<lparr>runs := [''run_1'' \<mapsto> slashRun]\<rparr>"

text \<open>The params of a \<^verbatim>\<open>chat.send\<close> on session \<^verbatim>\<open>main\<close> with idempotency key \<^verbatim>\<open>a\<close>.\<close>

definition exampleSend :: params where
  "exampleSend =
     emptyParams\<lparr>p_sessionKey := Some ''main'', p_message := Some ''x'',
                  p_idempotencyKey := Some ''a''\<rparr>"

text \<open>
  The params of the \<^verbatim>\<open>agent\<close> request of the test suite, and of a \<^verbatim>\<open>chat.send\<close>
  with the same message on the session \<^verbatim>\<open>default\<close>.
\<close>

definition agentParams :: params where
  "agentParams =
     emptyParams\<lparr>p_message := Some ''do something'',
                  p_idempotencyKey := Some ''idem-agent-1''\<rparr>"

definition sendParams :: params where
  "sendParams = agentParams\<lparr>p_sessionKey := Some ''default''\<rparr>"

definition exampleReply :: history_entry where
  "exampleReply =
     \<lparr>role = Assistant, content = [TextPart ''y''], timestamp = 1,
      stopReason = Some ''end_turn'', model = None, provider = None\<rparr>"

text \<open>A server whose session \<^verbatim>\<open>main\<close> holds three entries.\<close>

definition historyServer :: server where
  "historyServer =
     (newServer defaultConfig)
       \<lparr>chatHistory := [''main'' \<mapsto> [exampleEntry, exampleReply, exampleEntry]]\<rparr>"

definition historyParams :: "int option \<Rightarrow> params" where
  "historyParams n = emptyParams\<lparr>p_sessionKey := Some ''main'', p_limit := n\<rparr>"

text \<open>A server with one authenticated socket, numbered 1.\<close>

definition connectedServer :: server where
  "connectedServer =
     (newServer defaultConfig)
       \<lparr>wsdata := (wsdata (newServer defaultConfig))
                   (1 := \<lparr>connId = ''conn_1'', authenticated = True, clientInfo = None,
                          conn_role = None, conn_scopes = None\<rparr>),
        clients := [1]\<rparr>"

text \<open>
  A trace on that server: the \<^verbatim>\<open>agent\<close> request \<^verbatim>\<open>r1\<close> at time 5 starts
  \<^verbatim>\<open>run_1\<close>; an \<^verbatim>\<open>agent.wait\<close> with request id \<^verbatim>\<open>r2\<close> and a timeout of 10 ms
  arrives at time 6; its timer fires at time 16; the backend adapter finishes the run at
  time 20.
\<close>

definition waitParams :: params where
  "waitParams = emptyParams\<lparr>p_runId := Some ''run_1'', p_timeoutMs := Some 10\<rparr>"

definition afterAgent :: server where
  "afterAgent =
     handleAgent (\<lambda>m. None) (\<lambda>t. ''2026-11-03'') 5 1 ''r1'' agentParams connectedServer"

definition afterWait :: server where
  "afterWait = handleAgentWait 6 1 ''r2'' waitParams afterAgent"

definition afterTimeout :: server where
  "afterTimeout = fireTimer 16 1 afterWait"

definition afterFinish :: server where
  "afterFinish =
     finishRun (\<lambda>m. None) (\<lambda>t. ''2026-11-03'') 20 ''run_1'' Completed None
       (Some [TextPart ''done'']) afterTimeout"

text \<open>A server configured with a password and no token.\<close>

definition passwordServer :: server where
  "passwordServer = newServer (defaultConfig\<lparr>authPassword := ''pass123''\<rparr>)"

definition tokenServer :: server where
  "tokenServer = newServer (defaultConfig\<lparr>authToken := ''secret''\<rparr>)"

text \<open>Frames as parsed from the wire, and a message within the payload limit.\<close>

definition eventFrame :: request_frame where
  "eventFrame = \<lparr>f_type = Some ''event'', f_id = Some ''1'', f_method = Some ''chat.send'',
                  f_params = None\<rparr>"

definition sendFrame :: request_frame where
  "sendFrame = \<lparr>f_type = Some ''req'', f_id = Some ''1'', f_method = Some ''chat.send'',
                 f_params = None\<rparr>"

definition rawOf :: "request_frame \<Rightarrow> raw_message" where
  "rawOf fr = \<lparr>raw_length = 80, raw_json = JsonValue fr\<rparr>"


section \<open>How the operations change the state\<close>

lemma foldl_ws_send:
  "foldl (\<lambda>acc c. ws_send c (f c) acc) s cs = s\<lparr>sent := sent s @ map (\<lambda>c. (c, f c)) cs\<rparr>"
  by (induction cs arbitrary: s) (simp_all add: ws_send_def)

lemma broadcast_eq:
  "broadcast name payload sv s =
     s\<lparr>globalSeq := globalSeq s + 1,
       sent := sent s
         @ map (\<lambda>c. (c, Event name payload (Some (globalSeq s + 1)) sv)) (clients s)\<rparr>"
  by (simp add: broadcast_def Let_def foldl_ws_send)

lemma emitAgentEvent_eq:
  "runs s rid = Some r \<Longrightarrow>
   emitAgentEvent now rid stream data s =
     s\<lparr>runs := (runs s)(rid \<mapsto> r\<lparr>seq := seq r + 1\<rparr>),
       globalSeq := globalSeq s + 1,
       sent := sent s @ map (\<lambda>c. (c, Event ''agent''
                 (AgentPayload (runId r) (sessionKey r) (seq r + 1) stream now data)
                 (Some (globalSeq s + 1)) None)) (clients s)\<rparr>"
  by (simp add: emitAgentEvent_def broadcast_eq Let_def)

lemma emitChatEvent_error_eq:
  "runs s rid = Some r \<Longrightarrow>
   emitChatEvent now rid ChatError msg s =
     s\<lparr>globalSeq := globalSeq s + 1,
       sent := sent s @ map (\<lambda>c. (c, Event ''chat''
                 (ChatPayload (Some (runId r)) (sessionKey r) (seq r) ChatError
                    (ChatErrorMessage msg))
                 (Some (globalSeq s + 1)) None)) (clients s)\<rparr>"
  by (simp add: emitChatEvent_def broadcast_eq Let_def)

lemma emitChatEvent_fields [simp]:
  "chatHistory (emitChatEvent now rid st txt s) = chatHistory s"
  "runs (emitChatEvent now rid st txt s) = runs s"
  "idempotencyKeys (emitChatEvent now rid st txt s) = idempotencyKeys s"
  "config (emitChatEvent now rid st txt s) = config s"
  "currentModel (emitChatEvent now rid st txt s) = currentModel s"
  "currentProvider (emitChatEvent now rid st txt s) = currentProvider s"
  "delegated (emitChatEvent now rid st txt s) = delegated s"
  by (simp_all add: emitChatEvent_def broadcast_eq Let_def split: option.splits)

lemma emitAgentEvent_fields [simp]:
  "chatHistory (emitAgentEvent now rid stream data s) = chatHistory s"
  "idempotencyKeys (emitAgentEvent now rid stream data s) = idempotencyKeys s"
  "config (emitAgentEvent now rid stream data s) = config s"
  "currentModel (emitAgentEvent now rid stream data s) = currentModel s"
  "currentProvider (emitAgentEvent now rid stream data s) = currentProvider s"
  "delegated (emitAgentEvent now rid stream data s) = delegated s"
  by (simp_all add: emitAgentEvent_def broadcast_eq Let_def split: option.splits)

lemma emitAgentEvent_runs:
  "runs (emitAgentEvent now rid stream data s) =
     (runs s)(rid := map_option (\<lambda>r. r\<lparr>seq := seq r + 1\<rparr>) (runs s rid))"
  by (auto simp: emitAgentEvent_def broadcast_eq Let_def split: option.splits)

lemma touchSessionMeta_fields [simp]:
  "chatHistory (touchSessionMeta now k s) = chatHistory s"
  "runs (touchSessionMeta now k s) = runs s"
  "sent (touchSessionMeta now k s) = sent s"
  "resolved (touchSessionMeta now k s) = resolved s"
  "idempotencyKeys (touchSessionMeta now k s) = idempotencyKeys s"
  "config (touchSessionMeta now k s) = config s"
  "currentModel (touchSessionMeta now k s) = currentModel s"
  "currentProvider (touchSessionMeta now k s) = currentProvider s"
  "delegated (touchSessionMeta now k s) = delegated s"
  by (simp_all add: touchSessionMeta_def split: option.splits)

lemma ensureSessionMeta_fields [simp]:
  "chatHistory (ensureSessionMeta now k s) = chatHistory s"
  "runs (ensureSessionMeta now k s) = runs s"
  "sent (ensureSessionMeta now k s) = sent s"
  "resolved (ensureSessionMeta now k s) = resolved s"
  "idempotencyKeys (ensureSessionMeta now k s) = idempotencyKeys s"
  "config (ensureSessionMeta now k s) = config s"
  "currentModel (ensureSessionMeta now k s) = currentModel s"
  "currentProvider (ensureSessionMeta now k s) = currentProvider s"
  "delegated (ensureSessionMeta now k s) = delegated s"
  "runCounter (ensureSessionMeta now k s) = runCounter s"
  by (simp_all add: ensureSessionMeta_def split: option.splits)

lemma appendHistory_fields [simp]:
  "chatHistory (appendHistory isoDate now k e s) =
     (chatHistory s)(k \<mapsto> getChatHistory s k @ [e])"
  "runs (appendHistory isoDate now k e s) = runs s"
  "sent (appendHistory isoDate now k e s) = sent s"
  "resolved (appendHistory isoDate now k e s) = resolved s"
  "idempotencyKeys (appendHistory isoDate now k e s) = idempotencyKeys s"
  "config (appendHistory isoDate now k e s) = config s"
  "currentModel (appendHistory isoDate now k e s) = currentModel s"
  "currentProvider (appendHistory isoDate now k e s) = currentProvider s"
  "delegated (appendHistory isoDate now k e s) = delegated s"
  by (simp_all add: appendHistory_def getChatHistory_def Let_def)

lemma foldl_resolveWaiter_sent:
  "sent (foldl (\<lambda>acc w. resolveWaiter rid st txt w acc) s ws) =
     sent s @ concat (map (waiterFrame rid st txt) ws)"
proof (induction ws arbitrary: s)
  case Nil
  then show ?case by simp
next
  case (Cons w ws)
  then show ?case
    by (cases w) (simp_all add: sendResponse_def ws_send_def clearTimeout_def)
qed

lemma foldl_resolveWaiter_resolved:
  "resolved (foldl (\<lambda>acc w. resolveWaiter rid st txt w acc) s ws) =
     resolved s @ concat (map (waiterPromise txt) ws)"
proof (induction ws arbitrary: s)
  case Nil
  then show ?case by simp
next
  case (Cons w ws)
  then show ?case
    by (cases w) (simp_all add: sendResponse_def ws_send_def clearTimeout_def)
qed

lemma foldl_resolveWaiter_other [simp]:
  "chatHistory (foldl (\<lambda>acc w. resolveWaiter rid st txt w acc) s ws) = chatHistory s
   \<and> runs (foldl (\<lambda>acc w. resolveWaiter rid st txt w acc) s ws) = runs s
   \<and> idempotencyKeys (foldl (\<lambda>acc w. resolveWaiter rid st txt w acc) s ws) = idempotencyKeys s
   \<and> config (foldl (\<lambda>acc w. resolveWaiter rid st txt w acc) s ws) = config s
   \<and> delegated (foldl (\<lambda>acc w. resolveWaiter rid st txt w acc) s ws) = delegated s"
proof (induction ws arbitrary: s)
  case Nil
  then show ?case by simp
next
  case (Cons w ws)
  then show ?case
    by (cases w) (simp_all add: sendResponse_def ws_send_def clearTimeout_def)
qed

lemma finishRun_completed_history:
  "runs s rid = Some r \<Longrightarrow>
   chatHistory (finishRun matchResponse isoDate now rid Completed err (Some parts) s) =
     (chatHistory s)(sessionKey r \<mapsto> getChatHistory s (sessionKey r) @
        [\<lparr>role = Assistant, content = parts, timestamp = now,
          stopReason = Some ''end_turn'', model = None, provider = None\<rparr>])"
  by (simp add: finishRun_def Let_def getChatHistory_def)

lemma lowerChar_slash: "lowerChar c = CHR ''/'' \<longleftrightarrow> c = CHR ''/''"
proof
  assume "c = CHR ''/''"
  then show "lowerChar c = CHR ''/''" by (simp add: lowerChar_def)
next
  assume a: "lowerChar c = CHR ''/''"
  show "c = CHR ''/''"
  proof (rule ccontr)
    assume n: "c \<noteq> CHR ''/''"
    with a have up: "(65 \<le> (of_char c :: nat) \<and> (of_char c :: nat) \<le> 90)
        \<or> (192 \<le> (of_char c :: nat) \<and> (of_char c :: nat) \<le> 222 \<and> (of_char c :: nat) \<noteq> 215)"
      and eq: "char_of ((of_char c :: nat) + 32) = CHR ''/''"
      by (auto simp: lowerChar_def Let_def split: if_splits)
    from eq have "(of_char (char_of ((of_char c :: nat) + 32)) :: nat) = of_char (CHR ''/'')"
      by simp
    then have "((of_char c :: nat) + 32) mod 256 = 47" by (simp add: of_char_of)
    moreover from up have "(of_char c :: nat) + 32 < 256" by auto
    ultimately have "(of_char c :: nat) + 32 = 47" by simp
    with up show False by auto
  qed
qed

lemma startsWith_toLowerCase_slash:
  "startsWith (toLowerCase t) ''/'' \<longleftrightarrow> startsWith t ''/''"
  by (cases t) (simp_all add: startsWith_def toLowerCase_def lowerChar_slash)

text \<open>
  Every slash command yields a result without a stop reason; besides the history of the
  run's session (cleared by \<^verbatim>\<open>/new\<close>) only the current model can change.
\<close>

lemma handleSlashCommand_total:
  "\<exists>res. fst (handleSlashCommand r lower s) = Some res \<and> sr_stopReason res = None"
  unfolding handleSlashCommand_def Let_def
  by (cases "lower = ''/new''"; cases "lower = ''/models''"; cases "lower = ''/model''";
      cases "startsWith lower ''/model ''"; cases "lower = ''/help''";
      cases "trim (drop (length ''/model '') (trim (message r))) = []") simp_all

lemma handleSlashCommand_fields [simp]:
  "runs (snd (handleSlashCommand r lower s)) = runs s"
  "clients (snd (handleSlashCommand r lower s)) = clients s"
  "sent (snd (handleSlashCommand r lower s)) = sent s"
  "idempotencyKeys (snd (handleSlashCommand r lower s)) = idempotencyKeys s"
  "config (snd (handleSlashCommand r lower s)) = config s"
  "delegated (snd (handleSlashCommand r lower s)) = delegated s"
  "chatHistory (snd (handleSlashCommand r lower s)) =
     (if lower = ''/new'' then (chatHistory s)(sessionKey r := None) else chatHistory s)"
  unfolding handleSlashCommand_def Let_def
  by (cases "lower = ''/new''"; cases "lower = ''/models''"; cases "lower = ''/model''";
      cases "startsWith lower ''/model ''"; cases "lower = ''/help''";
      cases "trim (drop (length ''/model '') (trim (message r))) = []"; simp)+

lemma handleSlashCommand_pair:
  assumes "handleSlashCommand r lower s = (a, s0)"
  shows "runs s0 = runs s" "clients s0 = clients s" "sent s0 = sent s"
    "idempotencyKeys s0 = idempotencyKeys s" "config s0 = config s"
    "delegated s0 = delegated s"
    "chatHistory s0 =
       (if lower = ''/new'' then (chatHistory s)(sessionKey r := None) else chatHistory s)"
proof -
  have s0: "s0 = snd (handleSlashCommand r lower s)" using assms by simp
  show "runs s0 = runs s" "clients s0 = clients s" "sent s0 = sent s"
    "idempotencyKeys s0 = idempotencyKeys s" "config s0 = config s"
    "delegated s0 = delegated s"
    "chatHistory s0 =
       (if lower = ''/new'' then (chatHistory s)(sessionKey r := None) else chatHistory s)"
    unfolding s0 by simp_all
qed


section \<open>Responses written by the operations\<close>

lemma responsesTo_sent: "sent s' = sent s \<Longrightarrow> responsesTo ws reqId s' = responsesTo ws reqId s"
  by (simp add: responsesTo_def)

lemma responsesTo_append:
  "sent s' = sent s @ fs \<Longrightarrow>
   responsesTo ws reqId s' =
     responsesTo ws reqId s
     @ filter (isResponseTo reqId) (map snd (filter (\<lambda>wf. fst wf = ws) fs))"
  by (simp add: responsesTo_def)

lemma events_no_response:
  "filter (isResponseTo reqId)
     (map snd (filter (\<lambda>wf. fst wf = ws) (map (\<lambda>c. (c, Event n p g v)) cs))) = []"
  by (induction cs) simp_all

lemma responsesTo_broadcast [simp]:
  "responsesTo ws reqId (broadcast n p v s) = responsesTo ws reqId s"
  by (simp add: broadcast_eq responsesTo_def events_no_response)

lemma responsesTo_emitAgentEvent [simp]:
  "responsesTo ws reqId (emitAgentEvent now rid stream data s) = responsesTo ws reqId s"
proof (cases "runs s rid")
  case None
  then show ?thesis by (simp add: emitAgentEvent_def)
next
  case (Some r)
  have "responsesTo ws reqId (s\<lparr>runs := (runs s)(rid \<mapsto> r\<lparr>seq := seq r + 1\<rparr>)\<rparr>)
          = responsesTo ws reqId s"
    by (simp add: responsesTo_def)
  with Some show ?thesis by (simp add: emitAgentEvent_def Let_def)
qed

lemma responsesTo_emitChatEvent [simp]:
  "responsesTo ws reqId (emitChatEvent now rid st txt s) = responsesTo ws reqId s"
  by (cases "runs s rid") (simp_all add: emitChatEvent_def Let_def)

lemma responsesTo_touchSessionMeta [simp]:
  "responsesTo ws reqId (touchSessionMeta now k s) = responsesTo ws reqId s"
  by (rule responsesTo_sent) simp

lemma responsesTo_ensureSessionMeta [simp]:
  "responsesTo ws reqId (ensureSessionMeta now k s) = responsesTo ws reqId s"
  by (rule responsesTo_sent) simp

lemma responsesTo_appendHistory [simp]:
  "responsesTo ws reqId (appendHistory isoDate now k e s) = responsesTo ws reqId s"
  by (rule responsesTo_sent) simp

lemma responsesTo_foldl_resolveWaiter:
  "responsesTo ws reqId (foldl (\<lambda>acc w. resolveWaiter rid st txt w acc) s waiters) =
     responsesTo ws reqId s
     @ filter (isResponseTo reqId)
         (map snd (filter (\<lambda>wf. fst wf = ws) (concat (map (waiterFrame rid st txt) waiters))))"
  by (rule responsesTo_append) (rule foldl_resolveWaiter_sent)

text \<open>
  The responses written by \<open>finishRun\<close> are those of the waiters registered on the run.
\<close>

lemma responsesTo_finishRun:
  assumes "runs s rid = Some r"
  shows "responsesTo ws reqId (finishRun matchResponse isoDate now rid st err parts s) =
     responsesTo ws reqId s
     @ filter (isResponseTo reqId)
         (map snd (filter (\<lambda>wf. fst wf = ws)
            (concat (map (waiterFrame (runId r) st (accumulatedText r)) (waitResolvers r)))))"
proof -
  have upd: "\<And>x f. responsesTo ws reqId (x\<lparr>runs := f\<rparr>) = responsesTo ws reqId x"
    by (simp add: responsesTo_def)
  show ?thesis
    using assms
    by (simp add: finishRun_def Let_def responsesTo_foldl_resolveWaiter upd)
qed

lemma finishRun_fields [simp]:
  "idempotencyKeys (finishRun matchResponse isoDate now rid st err parts s) = idempotencyKeys s"
  "config (finishRun matchResponse isoDate now rid st err parts s) = config s"
  "delegated (finishRun matchResponse isoDate now rid st err parts s) = delegated s"
  by (simp_all add: finishRun_def Let_def split: option.splits)

lemma executeRun_fields [simp]:
  "idempotencyKeys (executeRun matchResponse isoDate now rid ws s) = idempotencyKeys s"
  "config (executeRun matchResponse isoDate now rid ws s) = config s"
  by (auto simp: executeRun_def Let_def delegateRun_def handleSlashCommand_pair
      split: option.splits prod.splits)

text \<open>A run without waiters gets no response frame from \<open>executeRun\<close>.\<close>

lemma responsesTo_executeRun:
  assumes "runs s rid = Some r" and "waitResolvers r = []"
  shows "responsesTo w reqId (executeRun matchResponse isoDate now rid ws s)
           = responsesTo w reqId s"
proof (cases "startsWith (toLowerCase (trim (message r))) ''/''")
  case False
  have "responsesTo w reqId (delegateRun rid ws s) = responsesTo w reqId s"
    by (rule responsesTo_sent) (simp add: delegateRun_def)
  with False assms(1) show ?thesis by (simp add: executeRun_def Let_def)
next
  case True
  let ?lower = "toLowerCase (trim (message r))"
  obtain a s0 where p: "handleSlashCommand r ?lower s = (a, s0)"
    by (cases "handleSlashCommand r ?lower s") blast
  obtain res where "fst (handleSlashCommand r ?lower s) = Some res"
    using handleSlashCommand_total[of r ?lower s] by blast
  with p have h: "handleSlashCommand r ?lower s = (Some res, s0)" by simp
  have r0: "runs s0 rid = Some r"
    using handleSlashCommand_pair(1)[OF p] assms(1) by simp
  have s0: "responsesTo w reqId s0 = responsesTo w reqId s"
    by (rule responsesTo_sent) (rule handleSlashCommand_pair(3)[OF p])
  have upd: "\<And>x f. responsesTo w reqId (x\<lparr>runs := f\<rparr>) = responsesTo w reqId x"
    by (simp add: responsesTo_def)
  let ?r4 = "r\<lparr>seq := seq r + 1, accumulatedText := sr_text res\<rparr>"
  let ?s1 = "emitAgentEvent now rid ''lifecycle'' (LifecycleStart now) s0"
  let ?s2 = "?s1\<lparr>runs := (runs ?s1)
               (rid := map_option (\<lambda>x. x\<lparr>accumulatedText := sr_text res\<rparr>) (runs ?s1 rid))\<rparr>"
  let ?s3 = "emitChatEvent now rid Delta (sr_text res) ?s2"
  let ?e = "\<lparr>role = Assistant, content = [TextPart (sr_text res)], timestamp = now,
             stopReason = Some (case sr_stopReason res of None \<Rightarrow> ''stop'' | Some x \<Rightarrow> x),
             model = Some (case sr_model res of None \<Rightarrow> currentModel ?s3 | Some x \<Rightarrow> x),
             provider = Some (case sr_provider res of
                                None \<Rightarrow> currentProvider ?s3 | Some x \<Rightarrow> x)\<rparr>"
  let ?s4 = "appendHistory isoDate now (sessionKey r) ?e ?s3"
  have r4: "runs ?s4 rid = Some ?r4"
    using r0 by (simp add: emitAgentEvent_runs)
  have "responsesTo w reqId
          (finishRun matchResponse isoDate now rid Completed None
             (Some [TextPart (sr_text res)]) ?s4)
        = responsesTo w reqId ?s4"
    using responsesTo_finishRun[OF r4, of w reqId matchResponse isoDate now Completed None
        "Some [TextPart (sr_text res)]"] assms(2)
    by simp
  also have "\<dots> = responsesTo w reqId s" by (simp add: upd s0)
  finally show ?thesis
    using True assms(1) h by (simp add: executeRun_def Let_def)
qed

lemma recordIdempotencyKey_fields [simp]:
  "runs (recordIdempotencyKey now k s) = runs s"
  "sent (recordIdempotencyKey now k s) = sent s"
  "runCounter (recordIdempotencyKey now k s) = runCounter s"
  "chatHistory (recordIdempotencyKey now k s) = chatHistory s"
  by (simp_all add: recordIdempotencyKey_def Let_def)

lemma isDuplicateKey_fields [simp]:
  "chatHistory (snd (isDuplicateKey now k s)) = chatHistory s"
  "runs (snd (isDuplicateKey now k s)) = runs s"
  "sent (snd (isDuplicateKey now k s)) = sent s"
  "runCounter (snd (isDuplicateKey now k s)) = runCounter s"
  by (simp_all add: isDuplicateKey_def split: option.splits)


section \<open>Disk log: file names and stored session keys\<close>

lemma sanitizeKey_length: "length (sanitizeKey k) = min 64 (length k)"
  by (simp add: sanitizeKey_def min.commute)

lemma sanitizeKey_nth:
  "i < length (sanitizeKey k) \<Longrightarrow>
   sanitizeKey k ! i = (if isSafeChar (k ! i) then k ! i else CHR ''-'')"
  by (simp add: sanitizeKey_def)

lemma logger_append_file:
  "files (logger_append isoDate k e lg) (logFileName isoDate k e) =
   files lg (logFileName isoDate k e) @ [\<lparr>session = k, entry = e\<rparr>]"
  by (simp add: logger_append_def logFileName_def Let_def)

lemma logger_append_other:
  "f \<noteq> logFileName isoDate k e \<Longrightarrow> files (logger_append isoDate k e lg) f = files lg f"
  by (simp add: logger_append_def logFileName_def Let_def)

lemma of_char_mem: "(of_char c :: nat) \<in> of_char ` set s \<Longrightarrow> c \<in> set s"
  by auto

text \<open>The numeric ranges of \<open>isSafeChar\<close> are exactly the written-out class.\<close>

lemma isSafeChar_iff: "isSafeChar c \<longleftrightarrow> c \<in> set filenameSafeChars"
proof
  assume "c \<in> set filenameSafeChars"
  then have "list_ex (\<lambda>d. c = d) filenameSafeChars" by (simp add: list_ex_iff)
  then show "isSafeChar c"
    unfolding filenameSafeChars_def by (auto simp: isSafeChar_def)
next
  assume a: "isSafeChar c"
  then consider "97 \<le> (of_char c :: nat) \<and> (of_char c :: nat) \<le> 122"
    | "65 \<le> (of_char c :: nat) \<and> (of_char c :: nat) \<le> 90"
    | "48 \<le> (of_char c :: nat) \<and> (of_char c :: nat) \<le> 57"
    | "c = CHR ''_''" | "c = CHR ''-''"
    unfolding isSafeChar_def Let_def by blast
  then show "c \<in> set filenameSafeChars"
  proof cases
    case 1
    then have "(of_char c :: nat) \<in> of_char ` set filenameSafeChars"
      unfolding filenameSafeChars_def by (simp; arith)
    then show ?thesis by (rule of_char_mem)
  next
    case 2
    then have "(of_char c :: nat) \<in> of_char ` set filenameSafeChars"
      unfolding filenameSafeChars_def by (simp; arith)
    then show ?thesis by (rule of_char_mem)
  next
    case 3
    then have "(of_char c :: nat) \<in> of_char ` set filenameSafeChars"
      unfolding filenameSafeChars_def by (simp; arith)
    then show ?thesis by (rule of_char_mem)
  next
    case 4 then show ?thesis unfolding filenameSafeChars_def by simp
  next
    case 5 then show ?thesis unfolding filenameSafeChars_def by simp
  qed
qed

lemma logger_touchSessionMeta [simp]: "logger (touchSessionMeta now k s) = logger s"
  by (simp add: touchSessionMeta_def split: option.splits)

lemma logger_ensureSessionMeta [simp]: "logger (ensureSessionMeta now k s) = logger s"
  by (simp add: ensureSessionMeta_def split: option.splits)

lemma logger_appendHistory:
  "logger (appendHistory isoDate now k e s) = map_option (logger_append isoDate k e) (logger s)"
  by (simp add: appendHistory_def Let_def)

text \<open>
  Claim C8. For every session key \<open>k\<close>, the file name component used by the disk log is
  \<open>k\<close> with each character outside \<^verbatim>\<open>[A-Za-z0-9_-]\<close> replaced by \<^verbatim>\<open>-\<close>, cut to 64
  characters (followed by the date and \<^verbatim>\<open>.jsonl\<close>); appending an entry adds to that
  file, and to no other, one line whose \<open>session\<close> field is the original key \<open>k\<close>; and
  the server's \<open>appendHistory\<close> hands the logger the key as it received it.
\<close>

theorem disk_log_filename_and_session:
  "length (sanitizeKey k) = min 64 (length k)
   \<and> (\<forall>i < length (sanitizeKey k).
         sanitizeKey k ! i = (if k ! i \<in> set filenameSafeChars then k ! i else CHR ''-''))
   \<and> files (logger_append isoDate k e lg)
         (sanitizeKey k @ ''-'' @ isoDate (timestamp e) @ ''.jsonl'')
       = files lg (sanitizeKey k @ ''-'' @ isoDate (timestamp e) @ ''.jsonl'')
         @ [\<lparr>session = k, entry = e\<rparr>]
   \<and> (\<forall>f. f \<noteq> sanitizeKey k @ ''-'' @ isoDate (timestamp e) @ ''.jsonl''
          \<longrightarrow> files (logger_append isoDate k e lg) f = files lg f)
   \<and> logger (appendHistory isoDate now k e s)
       = map_option (logger_append isoDate k e) (logger s)"
  using logger_append_file[of isoDate k e lg] logger_append_other[of _ isoDate k e lg]
  by (simp add: sanitizeKey_length sanitizeKey_nth isSafeChar_iff logFileName_def
      logger_appendHistory)

theorem disk_log_filename_and_session_witness:
  "(2::nat) < length (sanitizeKey ''my/session?key=42'')
   \<and> sanitizeKey ''my/session?key=42'' ! 2 = CHR ''-''
   \<and> ''other.jsonl'' \<noteq> sanitizeKey ''my/session?key=42'' @ ''-'' @ ''2026-11-03'' @ ''.jsonl''
   \<and> files (logger_append (\<lambda>t. ''2026-11-03'') ''my/session?key=42'' exampleEntry exampleLogger)
         ''other.jsonl'' = []
   \<and> files (logger_append (\<lambda>t. ''2026-11-03'') ''my/session?key=42'' exampleEntry exampleLogger)
         ''my-session-key-42-2026-11-03.jsonl''
       = [\<lparr>session = ''my/session?key=42'', entry = exampleEntry\<rparr>]"
  using disk_log_filename_and_session
    [of "''my/session?key=42''" "\<lambda>t. ''2026-11-03''" exampleEntry exampleLogger 0
        "newServer defaultConfig"]
  by (simp add: sanitizeKey_def isSafeChar_def exampleLogger_def filenameSafeChars_def)


section \<open>Runs that finish in the error state\<close>

text \<open>
  Claim C5. When \<open>finishRun\<close> is called with state \<open>Error\<close> on a run \<open>r\<close>, it broadcasts
  to every client an \<^verbatim>\<open>agent\<close> lifecycle event with phase \<^verbatim>\<open>error\<close> and then a
  \<^verbatim>\<open>chat\<close> event with state \<^verbatim>\<open>error\<close>, both carrying the error message
  (\<^verbatim>\<open>"Unknown error"\<close> when none is given); it resolves every registered waiter, in
  order, with \<^verbatim>\<open>{runId, state: "error", text}\<close>; the session histories are unchanged;
  and the run is stored with state \<open>Error\<close> and no waiters.
\<close>

theorem finishRun_error:
  assumes "runs s rid = Some r"
  shows "let err = (case errorMessage of None \<Rightarrow> ''Unknown error'' | Some m \<Rightarrow> m);
             s' = finishRun matchResponse isoDate now rid Error errorMessage parts s
         in sent s' =
              sent s
              @ map (\<lambda>c. (c, Event ''agent''
                      (AgentPayload (runId r) (sessionKey r) (seq r + 1) ''lifecycle'' now
                         (LifecycleError err now))
                      (Some (globalSeq s + 1)) None)) (clients s)
              @ map (\<lambda>c. (c, Event ''chat''
                      (ChatPayload (Some (runId r)) (sessionKey r) (seq r + 1) ChatError
                         (ChatErrorMessage err))
                      (Some (globalSeq s + 2)) None)) (clients s)
              @ concat (map (waiterFrame (runId r) Error (accumulatedText r)) (waitResolvers r))
          \<and> resolved s' =
              resolved s @ concat (map (waiterPromise (accumulatedText r)) (waitResolvers r))
          \<and> chatHistory s' = chatHistory s
          \<and> runs s' =
              (runs s)(rid \<mapsto> r\<lparr>state := Error, seq := seq r + 1, waitResolvers := []\<rparr>)"
  using assms
  by (simp add: finishRun_def Let_def emitAgentEvent_eq emitChatEvent_error_eq
      foldl_resolveWaiter_sent foldl_resolveWaiter_resolved)

theorem finishRun_error_witness:
  "runs exampleServer ''run_1'' = Some exampleRun
   \<and> sent (finishRun (\<lambda>m. None) (\<lambda>t. ''2026-11-03'') 5 ''run_1'' Error (Some ''boom'') None
             exampleServer)
       = [(1, Event ''agent''
                (AgentPayload ''run_1'' ''main'' 2 ''lifecycle'' 5 (LifecycleError ''boom'' 5))
                (Some 1) None),
          (1, Event ''chat''
                (ChatPayload (Some ''run_1'') ''main'' 2 ChatError (ChatErrorMessage ''boom''))
                (Some 2) None),
          (1, ResOk ''r2'' (WaitPayload ''run_1'' Error ''par''))]
   \<and> resolved (finishRun (\<lambda>m. None) (\<lambda>t. ''2026-11-03'') 5 ''run_1'' Error (Some ''boom'') None
                 exampleServer) = [(1, ''par'')]
   \<and> chatHistory (finishRun (\<lambda>m. None) (\<lambda>t. ''2026-11-03'') 5 ''run_1'' Error (Some ''boom'')
                    None exampleServer) ''main'' = Some [exampleEntry]"
  using finishRun_error
    [of exampleServer "''run_1''" exampleRun "Some ''boom''" "\<lambda>m. None" "\<lambda>t. ''2026-11-03''" 5 None]
  by (simp add: exampleServer_def exampleRun_def newServer_def Let_def)


section \<open>Idempotency cache\<close>










lemma map_of_map_set: "map_of (map_set k v m) k' = (if k' = k then Some v else map_of m k')"
  by (induction m) auto

lemma map_of_map_delete: "map_of (map_delete k m) k' = (if k' = k then None else map_of m k')"
  by (induction m) (auto simp: map_delete_def)

lemma config_record [simp]: "config (recordIdempotencyKey now k s) = config s"
  by (simp add: recordIdempotencyKey_def Let_def)

lemma config_probe [simp]: "config (snd (isDuplicateKey now k s)) = config s"
  by (simp add: isDuplicateKey_def split: option.splits)

lemma config_applyOp [simp]: "config (applyOp x s) = config s"
  by (cases x) (simp_all add: dedupeCleanup_def)






lemma config_applyOps [simp]: "config (foldl (\<lambda>acc x. applyOp x acc) s ops) = config s"
  by (induction ops arbitrary: s) simp_all






section \<open>Idempotency probe and \<^verbatim>\<open>chat.send\<close>\<close>

lemma isDuplicateKey_iff:
  "fst (isDuplicateKey now k s) \<longleftrightarrow>
     (\<exists>t0. map_of (idempotencyKeys s) k = Some t0 \<and> now - t0 \<le> dedupeTtlMs (config s))"
  by (auto simp: isDuplicateKey_def split: option.splits)

lemma isDuplicateKey_purge:
  "map_of (idempotencyKeys s) k = Some t0 \<Longrightarrow> now - t0 > dedupeTtlMs (config s) \<Longrightarrow>
   isDuplicateKey now k s = (False, s\<lparr>idempotencyKeys := map_delete k (idempotencyKeys s)\<rparr>)"
  by (simp add: isDuplicateKey_def)

lemma isDuplicateKey_hit:
  "map_of (idempotencyKeys s) k = Some t0 \<Longrightarrow> now - t0 \<le> dedupeTtlMs (config s) \<Longrightarrow>
   isDuplicateKey now k s = (True, s)"
  by (simp add: isDuplicateKey_def)

lemma recordIdempotencyKey_map_of:
  "map_of (idempotencyKeys (recordIdempotencyKey now k s)) k = Some now"
  by (simp add: recordIdempotencyKey_def Let_def map_of_map_set)

text \<open>
  A \<^verbatim>\<open>chat.send\<close> with all three parameters present whose key passes the probe:
  what the handler does, up to the hand-over to \<open>executeRun\<close>.
\<close>

lemma handleChatSend_accept:
  assumes "p_sessionKey p = Some key" "key \<noteq> []" "p_message p = Some msg" "msg \<noteq> []"
    and "p_idempotencyKey p = Some idem" "idem \<noteq> []"
    and "isDuplicateKey now idem s = (False, s0)"
  shows "handleChatSend matchResponse isoDate now ws reqId p s =
     executeRun matchResponse isoDate now (''run_'' @ toString36 (runCounter s0 + 1)) (Some ws)
       (ws_send ws (ResOk reqId (RunAck (''run_'' @ toString36 (runCounter s0 + 1)) (Some key)))
          (appendHistory isoDate now key (userEntry now msg)
             (snd (createRun key msg
                (ensureSessionMeta now key (recordIdempotencyKey now idem s0))))))"
  using assms by (simp add: handleChatSend_def createRun_def Let_def)

text \<open>
  Claim C4, amended. The probe answers true exactly when the key is in the cache and
  \<open>now - firstSeen \<le> TTL\<close> (the bound is inclusive). For a \<^verbatim>\<open>chat.send\<close> with all
  parameters present whose key is in the cache with time \<open>t0\<close>: up to and including
  \<open>t0 + TTL\<close> the only effect is the error response \<^verbatim>\<open>INVALID_REQUEST\<close>
  "Duplicate idempotency key"; after that the probe removes the expired entry, the request
  gets exactly one response, the acknowledgement with the new run id, and the key is in
  the cache again with the time of this request.
\<close>

theorem idempotency_ttl_inclusive:
  assumes "p_sessionKey p = Some key" "key \<noteq> []" "p_message p = Some msg" "msg \<noteq> []"
    and "p_idempotencyKey p = Some idem" "idem \<noteq> []"
    and "map_of (idempotencyKeys s) idem = Some t0"
  shows "(fst (isDuplicateKey now k s) \<longleftrightarrow>
            (\<exists>t. map_of (idempotencyKeys s) k = Some t \<and> now - t \<le> dedupeTtlMs (config s)))
       \<and> (now - t0 \<le> dedupeTtlMs (config s) \<longrightarrow>
            handleChatSend matchResponse isoDate now ws reqId p s =
              sendError ws reqId ''INVALID_REQUEST'' ''Duplicate idempotency key'' s)
       \<and> (now - t0 > dedupeTtlMs (config s) \<longrightarrow>
            idempotencyKeys (snd (isDuplicateKey now idem s))
              = map_delete idem (idempotencyKeys s)
            \<and> responsesTo ws reqId (handleChatSend matchResponse isoDate now ws reqId p s)
              = responsesTo ws reqId s
                @ [ResOk reqId (RunAck (''run_'' @ toString36 (runCounter s + 1)) (Some key))]
            \<and> map_of (idempotencyKeys (handleChatSend matchResponse isoDate now ws reqId p s))
                 idem = Some now)"
proof (intro conjI impI)
  show "fst (isDuplicateKey now k s) \<longleftrightarrow>
          (\<exists>t. map_of (idempotencyKeys s) k = Some t \<and> now - t \<le> dedupeTtlMs (config s))"
    by (rule isDuplicateKey_iff)
next
  assume "now - t0 \<le> dedupeTtlMs (config s)"
  with assms show "handleChatSend matchResponse isoDate now ws reqId p s =
              sendError ws reqId ''INVALID_REQUEST'' ''Duplicate idempotency key'' s"
    by (simp add: handleChatSend_def isDuplicateKey_hit)
next
  assume late: "now - t0 > dedupeTtlMs (config s)"
  let ?s0 = "s\<lparr>idempotencyKeys := map_delete idem (idempotencyKeys s)\<rparr>"
  have probe: "isDuplicateKey now idem s = (False, ?s0)"
    using assms(7) late by (rule isDuplicateKey_purge)
  then show "idempotencyKeys (snd (isDuplicateKey now idem s))
              = map_delete idem (idempotencyKeys s)"
    by simp
  let ?rid = "''run_'' @ toString36 (runCounter s + 1)"
  let ?s3 = "snd (createRun key msg (ensureSessionMeta now key (recordIdempotencyKey now idem ?s0)))"
  let ?s5 = "ws_send ws (ResOk reqId (RunAck ?rid (Some key)))
               (appendHistory isoDate now key (userEntry now msg) ?s3)"
  have eq: "handleChatSend matchResponse isoDate now ws reqId p s =
              executeRun matchResponse isoDate now ?rid (Some ws) ?s5"
    using handleChatSend_accept[OF assms(1-6) probe, of matchResponse isoDate ws reqId]
    by simp
  have run: "runs ?s5 ?rid =
      Some \<lparr>runId = ?rid, sessionKey = key, message = msg, seq = 0, state = Running,
            accumulatedText = [], accumulatedThinking = [], aborted = False,
            waitResolvers = []\<rparr>"
    by (simp add: ws_send_def createRun_def Let_def)
  have "responsesTo ws reqId (executeRun matchResponse isoDate now ?rid (Some ws) ?s5)
          = responsesTo ws reqId ?s5"
    by (rule responsesTo_executeRun[OF run]) simp
  also have "\<dots> = responsesTo ws reqId s @ [ResOk reqId (RunAck ?rid (Some key))]"
    by (simp add: responsesTo_def ws_send_def createRun_def Let_def)
  finally show "responsesTo ws reqId (handleChatSend matchResponse isoDate now ws reqId p s)
              = responsesTo ws reqId s @ [ResOk reqId (RunAck ?rid (Some key))]"
    by (simp only: eq)
  show "map_of (idempotencyKeys (handleChatSend matchResponse isoDate now ws reqId p s)) idem
          = Some now"
    by (simp add: eq ws_send_def createRun_def Let_def recordIdempotencyKey_map_of)
qed

text \<open>
  At exactly \<open>now - firstSeen = TTL\<close> the probe still answers true (the cache holds
  \<^verbatim>\<open>a\<close> recorded at 10, the TTL is 100).
\<close>

theorem isDuplicate_strict_bound_counterexample:
  "map_of (idempotencyKeys (exampleCache 2)) ''a'' = Some 10
   \<and> \<not> (110 - 10 < dedupeTtlMs (config (exampleCache 2)))
   \<and> fst (isDuplicateKey 110 ''a'' (exampleCache 2))"
  by (simp add: isDuplicateKey_def exampleCache_def newServer_def defaultConfig_def)

theorem idempotency_ttl_inclusive_witness:
  "map_of (idempotencyKeys (exampleCache 2)) ''a'' = Some 10
   \<and> 110 - 10 \<le> dedupeTtlMs (config (exampleCache 2))
   \<and> handleChatSend (\<lambda>m. None) (\<lambda>t. ''2026-11-03'') 110 1 ''r2'' exampleSend (exampleCache 2)
       = sendError 1 ''r2'' ''INVALID_REQUEST'' ''Duplicate idempotency key'' (exampleCache 2)
   \<and> 111 - 10 > dedupeTtlMs (config (exampleCache 2))
   \<and> responsesTo 1 ''r2''
        (handleChatSend (\<lambda>m. None) (\<lambda>t. ''2026-11-03'') 111 1 ''r2'' exampleSend (exampleCache 2))
       = [ResOk ''r2'' (RunAck ''run_1'' (Some ''main''))]"
proof -
  have a: "map_of (idempotencyKeys (exampleCache 2)) ''a'' = Some 10"
    by (simp add: exampleCache_def)
  have ttl: "dedupeTtlMs (config (exampleCache 2)) = 100"
    by (simp add: exampleCache_def newServer_def defaultConfig_def)
  have base: "\<And>w. responsesTo w ''r2'' (exampleCache 2) = []"
    by (simp add: responsesTo_def exampleCache_def newServer_def)
  have rc: "runCounter (exampleCache 2) = 0"
    by (simp add: exampleCache_def newServer_def)
  have ts: "toString36 (Suc 0) = ''1''"
    by code_simp
  have p: "p_sessionKey exampleSend = Some ''main''" "''main'' \<noteq> []"
    "p_message exampleSend = Some ''x''" "''x'' \<noteq> []"
    "p_idempotencyKey exampleSend = Some ''a''" "''a'' \<noteq> []"
    by (simp_all add: exampleSend_def emptyParams_def)
  from idempotency_ttl_inclusive
    [OF p a, of 110 "''a''" "\<lambda>m. None" "\<lambda>t. ''2026-11-03''" 1 "''r2''"]
  have one: "handleChatSend (\<lambda>m. None) (\<lambda>t. ''2026-11-03'') 110 1 ''r2'' exampleSend (exampleCache 2)
       = sendError 1 ''r2'' ''INVALID_REQUEST'' ''Duplicate idempotency key'' (exampleCache 2)"
    by (simp add: ttl)
  from idempotency_ttl_inclusive
    [OF p a, of 111 "''a''" "\<lambda>m. None" "\<lambda>t. ''2026-11-03''" 1 "''r2''"]
  have two: "responsesTo 1 ''r2''
        (handleChatSend (\<lambda>m. None) (\<lambda>t. ''2026-11-03'') 111 1 ''r2'' exampleSend (exampleCache 2))
       = [ResOk ''r2'' (RunAck ''run_1'' (Some ''main''))]"
    by (simp add: ttl base rc ts)
  show ?thesis
    by (intro conjI) (rule a, simp add: ttl, rule one, simp add: ttl, rule two)
qed


section \<open>Slash commands\<close>

text \<open>
  Claim C10. For every run whose trimmed message begins with \<^verbatim>\<open>/\<close>, \<open>executeRun\<close>
  leaves the session history as the slash command left it, followed by two assistant
  entries with the same single text part: the first with stop reason \<^verbatim>\<open>stop\<close> (unless
  the command gave one), the second, appended by \<open>finishRun\<close>, with \<^verbatim>\<open>end_turn\<close>.
\<close>

theorem slash_command_double_append:
  assumes "runs s rid = Some r" and "startsWith (trim (message r)) ''/''"
  shows "\<exists>res s0.
     handleSlashCommand r (toLowerCase (trim (message r))) s = (Some res, s0)
     \<and> getChatHistory s0 (sessionKey r)
         = (if toLowerCase (trim (message r)) = ''/new'' then []
            else getChatHistory s (sessionKey r))
     \<and> getChatHistory (executeRun matchResponse isoDate now rid ws s) (sessionKey r)
         = getChatHistory s0 (sessionKey r)
           @ [\<lparr>role = Assistant, content = [TextPart (sr_text res)], timestamp = now,
               stopReason = Some (case sr_stopReason res of None \<Rightarrow> ''stop'' | Some x \<Rightarrow> x),
               model = Some (case sr_model res of None \<Rightarrow> currentModel s0 | Some x \<Rightarrow> x),
               provider = Some (case sr_provider res of
                                  None \<Rightarrow> currentProvider s0 | Some x \<Rightarrow> x)\<rparr>,
              \<lparr>role = Assistant, content = [TextPart (sr_text res)], timestamp = now,
               stopReason = Some ''end_turn'', model = None, provider = None\<rparr>]"
proof -
  let ?lower = "toLowerCase (trim (message r))"
  obtain a s0 where p: "handleSlashCommand r ?lower s = (a, s0)"
    by (cases "handleSlashCommand r ?lower s") blast
  obtain res where "fst (handleSlashCommand r ?lower s) = Some res"
    using handleSlashCommand_total[of r ?lower s] by blast
  with p have h: "handleSlashCommand r ?lower s = (Some res, s0)" by simp
  have s0: "s0 = snd (handleSlashCommand r ?lower s)" using p by simp
  have sw: "startsWith ?lower ''/''"
    using assms(2) by (simp add: startsWith_toLowerCase_slash)
  have r0: "runs s0 rid = Some r" using assms(1) by (simp add: s0)
  have base: "getChatHistory s0 (sessionKey r)
         = (if ?lower = ''/new'' then [] else getChatHistory s (sessionKey r))"
    by (simp add: getChatHistory_def s0)
  have "getChatHistory (executeRun matchResponse isoDate now rid ws s) (sessionKey r)
         = getChatHistory s0 (sessionKey r)
           @ [\<lparr>role = Assistant, content = [TextPart (sr_text res)], timestamp = now,
               stopReason = Some (case sr_stopReason res of None \<Rightarrow> ''stop'' | Some x \<Rightarrow> x),
               model = Some (case sr_model res of None \<Rightarrow> currentModel s0 | Some x \<Rightarrow> x),
               provider = Some (case sr_provider res of
                                  None \<Rightarrow> currentProvider s0 | Some x \<Rightarrow> x)\<rparr>,
              \<lparr>role = Assistant, content = [TextPart (sr_text res)], timestamp = now,
               stopReason = Some ''end_turn'', model = None, provider = None\<rparr>]"
    using assms(1) sw h r0
    by (simp add: executeRun_def Let_def emitAgentEvent_runs finishRun_completed_history
        getChatHistory_def cong: option.case_cong)
  with h base show ?thesis by blast
qed

theorem slash_command_double_append_witness:
  "runs slashServer ''run_1'' = Some slashRun
   \<and> startsWith (trim (message slashRun)) ''/''
   \<and> getChatHistory (executeRun (\<lambda>m. None) (\<lambda>t. ''2026-11-03'') 7 ''run_1'' (Some 1) slashServer)
        ''main''
      = [exampleEntry,
         \<lparr>role = Assistant, content = [TextPart ''Current model: demo''], timestamp = 7,
          stopReason = Some ''stop'', model = Some ''demo'', provider = Some ''miniclaw''\<rparr>,
         \<lparr>role = Assistant, content = [TextPart ''Current model: demo''], timestamp = 7,
          stopReason = Some ''end_turn'', model = None, provider = None\<rparr>]"
proof -
  have r: "runs slashServer ''run_1'' = Some slashRun"
    by (simp add: slashServer_def)
  have sw: "startsWith (trim (message slashRun)) ''/''"
    unfolding slashRun_def by code_simp
  have l: "toLowerCase (trim (message slashRun)) = ''/model''"
    unfolding slashRun_def by code_simp
  have k: "sessionKey slashRun = ''main''"
    by (simp add: slashRun_def exampleRun_def)
  have h: "handleSlashCommand slashRun ''/model'' slashServer
      = (Some \<lparr>sr_text = ''Current model: demo'', sr_stopReason = None,
               sr_model = Some ''demo'', sr_provider = Some ''miniclaw''\<rparr>, slashServer)"
    by (simp add: handleSlashCommand_def slashServer_def exampleServer_def newServer_def)
  have g: "getChatHistory slashServer ''main'' = [exampleEntry]"
    by (simp add: getChatHistory_def slashServer_def exampleServer_def)
  from slash_command_double_append
    [OF r sw, of "\<lambda>m. None" "\<lambda>t. ''2026-11-03''" 7 "Some 1"]
  obtain res s0 where
    a: "handleSlashCommand slashRun (toLowerCase (trim (message slashRun))) slashServer
          = (Some res, s0)"
    and b: "getChatHistory
              (executeRun (\<lambda>m. None) (\<lambda>t. ''2026-11-03'') 7 ''run_1'' (Some 1) slashServer)
              (sessionKey slashRun)
         = getChatHistory s0 (sessionKey slashRun)
           @ [\<lparr>role = Assistant, content = [TextPart (sr_text res)], timestamp = 7,
               stopReason = Some (case sr_stopReason res of None \<Rightarrow> ''stop'' | Some x \<Rightarrow> x),
               model = Some (case sr_model res of None \<Rightarrow> currentModel s0 | Some x \<Rightarrow> x),
               provider = Some (case sr_provider res of
                                  None \<Rightarrow> currentProvider s0 | Some x \<Rightarrow> x)\<rparr>,
              \<lparr>role = Assistant, content = [TextPart (sr_text res)], timestamp = 7,
               stopReason = Some ''end_turn'', model = None, provider = None\<rparr>]"
    by blast
  from a have res: "res = \<lparr>sr_text = ''Current model: demo'', sr_stopReason = None,
               sr_model = Some ''demo'', sr_provider = Some ''miniclaw''\<rparr>"
    and s0: "s0 = slashServer"
    unfolding l h by simp_all
  from b have c: "getChatHistory
              (executeRun (\<lambda>m. None) (\<lambda>t. ''2026-11-03'') 7 ''run_1'' (Some 1) slashServer)
              ''main''
      = [exampleEntry,
         \<lparr>role = Assistant, content = [TextPart ''Current model: demo''], timestamp = 7,
          stopReason = Some ''stop'', model = Some ''demo'', provider = Some ''miniclaw''\<rparr>,
         \<lparr>role = Assistant, content = [TextPart ''Current model: demo''], timestamp = 7,
          stopReason = Some ''end_turn'', model = None, provider = None\<rparr>]"
    unfolding res s0 k g by simp
  show ?thesis by (intro conjI) (rule r, rule sw, rule c)
qed


section \<open>The \<^verbatim>\<open>agent\<close> method and the session history\<close>

text \<open>
  \<open>handleAgent\<close> never appends the user message: for a message that is not a slash
  command, every session history is after the call what it was before.
\<close>

lemma handleAgent_history_unchanged:
  assumes "p_message p = Some msg" and "\<not> startsWith (toLowerCase (trim msg)) ''/''"
  shows "chatHistory (handleAgent matchResponse isoDate now ws reqId p s) = chatHistory s"
proof (cases "p_idempotencyKey p")
  case None
  with assms show ?thesis by (simp add: handleAgent_def sendError_def ws_send_def)
next
  case (Some idem)
  obtain d s0 where pr: "isDuplicateKey now idem s = (d, s0)"
    by (cases "isDuplicateKey now idem s") blast
  then have s0: "s0 = snd (isDuplicateKey now idem s)" by simp
  have h0: "chatHistory s0 = chatHistory s" unfolding s0 by simp
  show ?thesis
    using assms Some pr h0
    by (cases d)
       (simp_all add: handleAgent_def sendError_def sendResponse_def ws_send_def createRun_def
          executeRun_def delegateRun_def Let_def)
qed

text \<open>
  Claim C2 at the \<^verbatim>\<open>agent\<close> request of the test suite on a fresh server: the reply
  carries the new run id and the run is handed to the backend adapter, but the history of
  the session \<^verbatim>\<open>default\<close> is still absent, while \<^verbatim>\<open>chat.send\<close> with the same
  message stores the user entry before the hand-over.
\<close>

theorem agent_request_leaves_history_empty:
  "chatHistory afterAgent ''default'' = None
   \<and> sent afterAgent = [(1, ResOk ''r1'' (RunAck ''run_1'' None))]
   \<and> delegated afterAgent = [(''run_1'', Some 1)]
   \<and> chatHistory
        (handleChatSend (\<lambda>m. None) (\<lambda>t. ''2026-11-03'') 5 1 ''r1'' sendParams connectedServer)
        ''default'' = Some [userEntry 5 ''do something'']"
  by code_simp


section \<open>\<^verbatim>\<open>chat.history\<close> and its limit\<close>

lemma js_slice_last:
  "0 < n \<Longrightarrow> js_slice_from (- n) xs = drop (length xs - nat n) xs"
  by (auto simp: js_slice_from_def Let_def max_def nat_diff_distrib' intro: arg_cong2[where f = drop])

lemma js_slice_zero: "js_slice_from (- 0) xs = xs"
  by (simp add: js_slice_from_def)

text \<open>
  With a limit of at least one, or with none, the reply holds the last \<open>min n 1000\<close>
  (by default the last 50) entries in order.
\<close>

lemma handleChatHistory_positive_limit:
  assumes "p_sessionKey p = Some key" "key \<noteq> []"
    and "lim = (case p_limit p of None \<Rightarrow> 50 | Some n \<Rightarrow> n)" "0 < lim"
  shows "responsesTo ws reqId (handleChatHistory isoDate now ws reqId p s) =
     responsesTo ws reqId s
     @ [ResOk reqId (HistoryPayload key
          (drop (length (getChatHistory s key) - nat (min lim 1000)) (getChatHistory s key)))]"
proof -
  have lim: "0 < min lim 1000" using assms(4) by simp
  have upd: "\<And>x e. responsesTo ws reqId (ws_send ws (Event ''chat'' e None None) x)
                = responsesTo ws reqId x"
    by (simp add: responsesTo_def ws_send_def)
  have one: "\<And>x f. responsesTo ws reqId (sendResponse ws reqId f x)
                = responsesTo ws reqId x @ [ResOk reqId f]"
    by (simp add: responsesTo_def sendResponse_def ws_send_def)
  show ?thesis
    using assms(1,2) lim
    by (simp add: handleChatHistory_def Let_def assms(3)[symmetric] js_slice_last upd one
        getChatHistory_def split: option.splits)
qed

text \<open>With the limit 0 the reply holds the whole history of the session.\<close>

lemma handleChatHistory_zero_limit:
  assumes "p_sessionKey p = Some key" "key \<noteq> []" "p_limit p = Some 0"
  shows "responsesTo ws reqId (handleChatHistory isoDate now ws reqId p s) =
     responsesTo ws reqId s @ [ResOk reqId (HistoryPayload key (getChatHistory s key))]"
proof -
  have upd: "\<And>x e. responsesTo ws reqId (ws_send ws (Event ''chat'' e None None) x)
                = responsesTo ws reqId x"
    by (simp add: responsesTo_def ws_send_def)
  have one: "\<And>x f. responsesTo ws reqId (sendResponse ws reqId f x)
                = responsesTo ws reqId x @ [ResOk reqId f]"
    by (simp add: responsesTo_def sendResponse_def ws_send_def)
  show ?thesis
    using assms
    by (simp add: handleChatHistory_def Let_def js_slice_from_def upd one getChatHistory_def
        split: option.splits)
qed

text \<open>
  Claim C6 at limit 0: the reply holds all three entries of the session, not none
  (\<^verbatim>\<open>history.slice(-0)\<close> is the whole array); with limit 2 it holds the last two.
\<close>

theorem chat_history_limit_zero_returns_all:
  "sent (handleChatHistory (\<lambda>t. ''2026-11-03'') 5 1 ''r1'' (historyParams (Some 0)) historyServer)
     = [(1, ResOk ''r1'' (HistoryPayload ''main'' [exampleEntry, exampleReply, exampleEntry]))]
   \<and> sent (handleChatHistory (\<lambda>t. ''2026-11-03'') 5 1 ''r1'' (historyParams (Some 2)) historyServer)
     = [(1, ResOk ''r1'' (HistoryPayload ''main'' [exampleReply, exampleEntry]))]"
  by code_simp


section \<open>Authorization of \<^verbatim>\<open>POST /v1/chat/completions\<close>\<close>

text \<open>
  Claim C9, amended. Whenever an auth token is configured, a request whose
  \<^verbatim>\<open>Authorization\<close> header is missing or is not \<^verbatim>\<open>Bearer <token>\<close> gets status
  401; with no token configured (also when a password is) no request gets 401.
\<close>

theorem http_completions_bearer_token:
  "(authToken (config s) \<noteq> [] \<and> authHeader \<noteq> Some (''Bearer '' @ authToken (config s))
      \<longrightarrow> handleHttpChatCompletions authHeader s = Response 401 AuthError)
   \<and> (authToken (config s) = []
      \<longrightarrow> http_status (handleHttpChatCompletions authHeader s) = 200)"
  by (simp add: handleHttpChatCompletions_def)

theorem http_completions_bearer_token_witness:
  "authToken (config tokenServer) \<noteq> []
   \<and> Some ''Bearer wrong'' \<noteq> Some (''Bearer '' @ authToken (config tokenServer))
   \<and> handleHttpChatCompletions (Some ''Bearer wrong'') tokenServer = Response 401 AuthError
   \<and> authToken (config passwordServer) = []
   \<and> http_status (handleHttpChatCompletions (Some ''Bearer wrong'') passwordServer) = 200"
  using http_completions_bearer_token[of tokenServer "Some ''Bearer wrong''"]
    http_completions_bearer_token[of passwordServer "Some ''Bearer wrong''"]
  by (simp add: tokenServer_def passwordServer_def newServer_def defaultConfig_def)

text \<open>
  With only a password configured, a request without any \<^verbatim>\<open>Authorization\<close> header
  passes the gate.
\<close>

theorem http_completions_password_only_counterexample:
  "authPassword (config passwordServer) \<noteq> []
   \<and> http_status (handleHttpChatCompletions None passwordServer) \<noteq> 401"
  by (simp add: handleHttpChatCompletions_def passwordServer_def newServer_def defaultConfig_def)


section \<open>Frames before the handshake\<close>

text \<open>
  Claim C3, amended. On a connection that has not authenticated, for every inbound message
  that is within the payload limit and whose JSON parses to a value other than
  \<^verbatim>\<open>null\<close>: if it is a request frame (type \<^verbatim>\<open>req\<close>, non-empty id and method) whose
  method is not \<^verbatim>\<open>connect\<close>, it is answered with \<^verbatim>\<open>INVALID_REQUEST\<close> under its id
  and the socket is closed with code 1008; if its type is not \<^verbatim>\<open>req\<close>, it is answered
  with \<^verbatim>\<open>INVALID_REQUEST\<close> under the id \<^verbatim>\<open>unknown\<close> and nothing else happens, the
  socket stays open.
\<close>

theorem pre_handshake_frames:
  assumes "\<not> authenticated (wsdata s ws)" and "raw_length raw \<le> maxPayload (config s)"
    and "raw_json raw = JsonValue fr"
  shows "(f_type fr = Some ''req'' \<and> f_id fr = Some i \<and> i \<noteq> [] \<and> f_method fr = Some m
            \<and> m \<noteq> [] \<and> m \<noteq> ''connect''
          \<longrightarrow> handleMessage methods methodNames now ws raw s =
                ws_close ws 1008 ''First message must be connect''
                  (sendError ws i ''INVALID_REQUEST'' ''First message must be connect'' s))
       \<and> (f_type fr \<noteq> Some ''req''
          \<longrightarrow> handleMessage methods methodNames now ws raw s =
                sendError ws ''unknown'' ''INVALID_REQUEST'' ''Expected type: req'' s
              \<and> closed (handleMessage methods methodNames now ws raw s) = closed s)"
  using assms by (simp add: handleMessage_def Let_def sendError_def ws_send_def)

theorem pre_handshake_frames_witness:
  "\<not> authenticated (wsdata (newServer defaultConfig) 1)
   \<and> raw_length (rawOf sendFrame) \<le> maxPayload (config (newServer defaultConfig))
   \<and> sent (handleMessage (\<lambda>m. None) [] 5 1 (rawOf sendFrame) (newServer defaultConfig))
       = [(1, ResError ''1'' ''INVALID_REQUEST'' ''First message must be connect'')]
   \<and> closed (handleMessage (\<lambda>m. None) [] 5 1 (rawOf sendFrame) (newServer defaultConfig))
       = [(1, 1008, ''First message must be connect'')]
   \<and> handleMessage (\<lambda>m. None) [] 5 1 (rawOf eventFrame) (newServer defaultConfig)
       = sendError 1 ''unknown'' ''INVALID_REQUEST'' ''Expected type: req''
           (newServer defaultConfig)"
  using pre_handshake_frames
      [of "newServer defaultConfig" 1 "rawOf sendFrame" sendFrame "''1''" "''chat.send''"
          "\<lambda>m. None" "[]" 5]
    pre_handshake_frames
      [of "newServer defaultConfig" 1 "rawOf eventFrame" eventFrame "''1''" "''chat.send''"
          "\<lambda>m. None" "[]" 5]
  by (simp add: newServer_def defaultConfig_def rawOf_def sendFrame_def eventFrame_def
      ws_close_def sendError_def ws_send_def)

text \<open>
  A frame of type \<^verbatim>\<open>event\<close> on a connection that has not authenticated: one
  \<^verbatim>\<open>INVALID_REQUEST\<close> reply, and no close.
\<close>

theorem pre_handshake_non_request_counterexample:
  "\<not> authenticated (wsdata (newServer defaultConfig) 1)
   \<and> f_type eventFrame \<noteq> Some ''req''
   \<and> sent (handleMessage (\<lambda>m. None) [] 5 1 (rawOf eventFrame) (newServer defaultConfig))
       = [(1, ResError ''unknown'' ''INVALID_REQUEST'' ''Expected type: req'')]
   \<and> closed (handleMessage (\<lambda>m. None) [] 5 1 (rawOf eventFrame) (newServer defaultConfig)) = []"
  by (simp add: handleMessage_def newServer_def defaultConfig_def rawOf_def eventFrame_def
      sendError_def ws_send_def)


section \<open>One response per request\<close>

text \<open>
  Claim C1 at the trace \<open>afterFinish\<close>: the \<^verbatim>\<open>agent.wait\<close> request \<^verbatim>\<open>r2\<close> is
  answered by the timer with \<^verbatim>\<open>AGENT_TIMEOUT\<close>; the timer's callback leaves the
  resolver on the run, so when the run finishes the same request is answered again.
\<close>

theorem agent_wait_timeout_then_finish_two_responses:
  "waitResolvers (the (runs afterTimeout ''run_1'')) = [WaitResponder 1 ''r2'' 1]
   \<and> responsesTo 1 ''r2'' afterTimeout = [ResError ''r2'' ''AGENT_TIMEOUT'' ''Wait timed out'']
   \<and> responsesTo 1 ''r2'' afterFinish =
        [ResError ''r2'' ''AGENT_TIMEOUT'' ''Wait timed out'',
         ResOk ''r2'' (WaitPayload ''run_1'' Completed [])]"
  by code_simp


end
